theory Spec2Isabelle
  imports Complex_Main
begin

section \<open>Python values, exceptions and strings\<close>

text \<open>
  The agent of \<^verbatim>\<open>src/agent_patterns.py\<close> and the three analysis tools of
  \<^verbatim>\<open>src/tools.py\<close> are embedded as HOL functions.  A Python exception is a value
  (\<open>Inl\<close> of a sum type), every object the code may change is passed in and handed back, and
  the collaborators that are not part of the repository (the model client, the statistics and
  plotting libraries, the rounding of floating-point arithmetic, Python's \<^verbatim>\<open>str\<close>) are
  parameters.  The trace lines written with
  \<^verbatim>\<open>print\<close> are left out: they neither return a value nor change an object that the code
  reads again.
\<close>

text \<open>An exception: its class name and the text \<^verbatim>\<open>str(e)\<close> gives.\<close>

datatype exn = PyError string string

fun str_exn :: "exn \<Rightarrow> string" where
  "str_exn (PyError cls msg) = msg"

text \<open>
  What a tool returns: nested dictionaries, lists, strings and numbers.  A dictionary is an
  association list, since Python keeps the insertion order.
\<close>

datatype payload =
    PNull
  | PInt int
  | PFloat real
  | PStr string
  | PTime int
  | PList "payload list"
  | PDict "(payload \<times> payload) list"

definition error_dict :: "string \<Rightarrow> payload" where
  "error_dict msg = PDict [(PStr ''error'', PStr msg)]"

text \<open>
  Strings are lists of characters, a character being a code point below 256.
  \<^verbatim>\<open>str.strip()\<close> removes white space at both ends: the code points 9 to 13, 28 to 31,
  32, \<open>0x85\<close> and \<open>0xA0\<close>.
\<close>

definition is_space :: "char \<Rightarrow> bool" where
  "is_space c \<longleftrightarrow> c \<in> set [CHR 0x09, CHR 0x0A, CHR 0x0B, CHR 0x0C, CHR 0x0D,
                          CHR 0x1C, CHR 0x1D, CHR 0x1E, CHR 0x1F, CHR 0x20,
                          CHR 0x85, CHR 0xA0]"

definition strip :: "string \<Rightarrow> string" where
  "strip s = rev (dropWhile is_space (rev (dropWhile is_space s)))"

definition startswith :: "string \<Rightarrow> string \<Rightarrow> bool" where
  "startswith s p \<longleftrightarrow> take (length p) s = p"

text \<open>
  \<^verbatim>\<open>s.split(sep)\<close> for a separator that is not empty: the pieces between the
  occurrences of \<open>sep\<close>, found from the left without overlap.  \<open>acc\<close> is the piece being
  read, reversed.
\<close>

fun split_aux :: "string \<Rightarrow> string \<Rightarrow> string \<Rightarrow> string list" where
  "split_aux sep acc [] = [rev acc]"
| "split_aux sep acc (c # cs) =
     (if sep \<noteq> [] \<and> take (length sep) (c # cs) = sep
      then rev acc # split_aux sep [] (drop (length sep - 1) cs)
      else split_aux sep (c # acc) cs)"

definition split :: "string \<Rightarrow> string \<Rightarrow> string list" where
  "split s sep = split_aux sep [] s"

text \<open>
  \<^verbatim>\<open>s.split(sep, 1)\<close>: one piece when \<open>sep\<close> does not occur, otherwise the text before the
  first occurrence and all the text after it.
\<close>

fun split1_aux :: "string \<Rightarrow> string \<Rightarrow> string \<Rightarrow> string list" where
  "split1_aux sep acc [] = [rev acc]"
| "split1_aux sep acc (c # cs) =
     (if sep \<noteq> [] \<and> take (length sep) (c # cs) = sep
      then [rev acc, drop (length sep - 1) cs]
      else split1_aux sep (c # acc) cs)"

definition split1 :: "string \<Rightarrow> string \<Rightarrow> string list" where
  "split1 s sep = split1_aux sep [] s"

text \<open>\<^verbatim>\<open>sub in s\<close> for strings.\<close>

fun contains :: "string \<Rightarrow> string \<Rightarrow> bool" where
  "contains [] sub \<longleftrightarrow> sub = []"
| "contains (c # cs) sub \<longleftrightarrow> take (length sub) (c # cs) = sub \<or> contains cs sub"

text \<open>\<^verbatim>\<open>s.replace(old, "")\<close> for a one-character \<open>old\<close>.\<close>

definition remove_char :: "char \<Rightarrow> string \<Rightarrow> string" where
  "remove_char c s = filter (\<lambda>d. d \<noteq> c) s"

text \<open>
  \<^verbatim>\<open>re.search(r'\((.*?)\)', s)\<close>, as its first group or \<open>None\<close>.  From an opening
  parenthesis the lazy group takes characters up to the first closing one; the dot matches no
  line feed, so a line feed met before the closing parenthesis fails the attempt and the search
  goes on from the next character.
\<close>

definition lazy_group :: "string \<Rightarrow> string option" where
  "lazy_group cs =
     (let g = takeWhile (\<lambda>c. c \<noteq> CHR 0x29 \<and> c \<noteq> CHR 0x0A) cs
      in case drop (length g) cs of
           [] \<Rightarrow> None
         | c # _ \<Rightarrow> if c = CHR 0x29 then Some g else None)"

fun search_params :: "string \<Rightarrow> string option" where
  "search_params [] = None"
| "search_params (c # cs) =
     (if c = CHR 0x28
      then (case lazy_group cs of Some g \<Rightarrow> Some g | None \<Rightarrow> search_params cs)
      else search_params cs)"

text \<open>The decimal digits of a natural number, as an f-string prints it.\<close>

fun str_nat :: "nat \<Rightarrow> string" where
  "str_nat n =
     (if n < 10 then [''0123456789'' ! n]
      else str_nat (n div 10) @ [''0123456789'' ! (n mod 10)])"

declare str_nat.simps [simp del]

section \<open>The dataset\<close>

text \<open>
  A DataFrame is its columns in order, each a label and a typed series of equal length; the
  labels are distinct strings and the rows carry the default labels \<open>0, 1, \<dots>\<close>.  The dtypes
  are those of the Superstore table.  A missing cell (\<^verbatim>\<open>NaN\<close>, \<^verbatim>\<open>None\<close>, \<^verbatim>\<open>NaT\<close>) is
  \<open>None\<close>; an \<^verbatim>\<open>int64\<close> series has no missing cell.  A \<^verbatim>\<open>float64\<close> cell is a real
  number, meant to be one that \<^verbatim>\<open>float64\<close> represents; the infinities are left out.
\<close>

datatype series =
    Int64 "int list"
  | Float64 "real option list"
  | Object "string option list"
  | Category "string option list"
  | Datetime64 "int option list"

type_synonym dataframe = "(string \<times> series) list"

fun series_len :: "series \<Rightarrow> nat" where
  "series_len (Int64 xs) = length xs"
| "series_len (Float64 xs) = length xs"
| "series_len (Object xs) = length xs"
| "series_len (Category xs) = length xs"
| "series_len (Datetime64 xs) = length xs"

text \<open>\<^verbatim>\<open>len(df)\<close>, \<^verbatim>\<open>df.columns\<close>, \<^verbatim>\<open>df.empty\<close> and \<^verbatim>\<open>df[col]\<close>.\<close>

fun len_df :: "dataframe \<Rightarrow> nat" where
  "len_df [] = 0"
| "len_df ((label, s) # cols) = series_len s"

definition columns :: "dataframe \<Rightarrow> string list" where
  "columns df = map fst df"

definition df_empty :: "dataframe \<Rightarrow> bool" where
  "df_empty df \<longleftrightarrow> df = [] \<or> len_df df = 0"

definition getitem :: "dataframe \<Rightarrow> string \<Rightarrow> series option" where
  "getitem df col = map_of df col"

text \<open>
  What the code takes from its libraries and from the machine:
  \<^item> \<^verbatim>\<open>df.describe(include=['number', 'datetime']).T.to_dict()\<close>, and the drawing of one
    of the three charts up to the encoding of its file; both read the DataFrame and may raise;
  \<^item> \<open>float64 x\<close>, the \<^verbatim>\<open>float64\<close> number nearest to the real number \<open>x\<close>: the result of
    an arithmetic operation in floating point is the exact result rounded so, and an integer
    becomes a floating-point number so;
  \<^item> \<open>np_round x n\<close>, what \<^verbatim>\<open>round(x, n)\<close> returns when \<open>x\<close> is a
    \<^verbatim>\<open>numpy.float64\<close>, as the quartiles and the bounds are.
\<close>

datatype chart = SalesDistribution | CategoryPerformance | DiscountProfitScatter

record library =
  describe :: "dataframe \<Rightarrow> exn + payload"
  draw :: "chart \<Rightarrow> dataframe \<Rightarrow> exn + string"
  float64 :: "real \<Rightarrow> real"
  np_round :: "real \<Rightarrow> nat \<Rightarrow> real"

text \<open>
  \<^verbatim>\<open>pd.api.types.is_numeric_dtype\<close>, and the numbers of a numeric series as the
  floating-point arithmetic of pandas sees them: the quantile and the comparison with a
  floating-point bound convert an \<^verbatim>\<open>int64\<close> cell to \<^verbatim>\<open>float64\<close>.
\<close>

fun is_numeric_dtype :: "series \<Rightarrow> bool" where
  "is_numeric_dtype (Int64 xs) = True"
| "is_numeric_dtype (Float64 xs) = True"
| "is_numeric_dtype s = False"

fun numbers :: "library \<Rightarrow> series \<Rightarrow> real option list" where
  "numbers lib (Int64 xs) = map (\<lambda>i. Some (float64 lib (of_int i))) xs"
| "numbers lib (Float64 xs) = xs"
| "numbers lib s = []"

fun dropna :: "'a option list \<Rightarrow> 'a list" where
  "dropna [] = []"
| "dropna (None # xs) = dropna xs"
| "dropna (Some x # xs) = x # dropna xs"

text \<open>
  \<^verbatim>\<open>Series.quantile(q)\<close> with the default linear interpolation: at position
  \<open>(n - 1) * q\<close> of the sorted values, between the two neighbours.  The interpolation is
  the exact one; numpy rounds its steps, and on neighbours that are equal both give that
  value.
\<close>

definition quantile :: "real list \<Rightarrow> real \<Rightarrow> real" where
  "quantile xs q =
     (let s = sort xs;
          h = real (length xs - 1) * q;
          i = nat \<lfloor>h\<rfloor>;
          frac = h - real i
      in if Suc i < length s then s ! i + (s ! Suc i - s ! i) * frac else s ! i)"

text \<open>
  \<^verbatim>\<open>round(x, ndigits)\<close> on a Python \<^verbatim>\<open>float\<close>, as the percentage is: the multiple
  of \<open>10\<^sup>-\<^sup>n\<close> nearest to the exact value of \<open>x\<close>, a tie going to the even neighbour, and
  of that the nearest \<^verbatim>\<open>float64\<close>.
\<close>

definition round_half_even :: "real \<Rightarrow> int" where
  "round_half_even y =
     (let f = \<lfloor>y\<rfloor>; d = y - of_int f
      in if d < 1 / 2 then f else if 1 / 2 < d then f + 1 else if even f then f else f + 1)"

definition py_round :: "library \<Rightarrow> real \<Rightarrow> nat \<Rightarrow> real" where
  "py_round lib x ndigits =
     float64 lib (of_int (round_half_even (x * 10 ^ ndigits)) / 10 ^ ndigits)"

text \<open>
  The objects a tool can reach: the DataFrame \<^verbatim>\<open>df\<close> refers to (\<open>None\<close> for Python's
  \<^verbatim>\<open>None\<close>) and the files of the working directory, by name.
\<close>

record world =
  frame :: "dataframe option"
  disk :: "string \<rightharpoonup> string"

section \<open>The analysis tools\<close>

text \<open>What reading the attribute \<open>attr\<close> of \<^verbatim>\<open>None\<close> raises.\<close>

definition none_has_no :: "string \<Rightarrow> exn" where
  "none_has_no attr =
     PyError ''AttributeError''
       (CHR 0x27 # ''NoneType' object has no attribute '' @ CHR 0x27 # attr @ [CHR 0x27])"

subsection \<open>\<^verbatim>\<open>data_summary\<close>\<close>

fun is_null :: "'a option \<Rightarrow> bool" where
  "is_null None = True"
| "is_null (Some x) = False"

fun missing_count :: "series \<Rightarrow> nat" where
  "missing_count (Int64 xs) = 0"
| "missing_count (Float64 xs) = length (filter is_null xs)"
| "missing_count (Object xs) = length (filter is_null xs)"
| "missing_count (Category xs) = length (filter is_null xs)"
| "missing_count (Datetime64 xs) = length (filter is_null xs)"

fun dtype_name :: "series \<Rightarrow> string" where
  "dtype_name (Int64 xs) = ''int64''"
| "dtype_name (Float64 xs) = ''float64''"
| "dtype_name (Object xs) = ''object''"
| "dtype_name (Category xs) = ''category''"
| "dtype_name (Datetime64 xs) = ''datetime64[ns]''"

fun opt_payload :: "('a \<Rightarrow> payload) \<Rightarrow> 'a option \<Rightarrow> payload" where
  "opt_payload f None = PNull"
| "opt_payload f (Some x) = f x"

text \<open>The cells of a series as values, in row order.\<close>

fun cells :: "series \<Rightarrow> payload list" where
  "cells (Int64 xs) = map PInt xs"
| "cells (Float64 xs) = map (opt_payload PFloat) xs"
| "cells (Object xs) = map (opt_payload PStr) xs"
| "cells (Category xs) = map (opt_payload PStr) xs"
| "cells (Datetime64 xs) = map (opt_payload PTime) xs"

definition MAX_UNIQUE_SAMPLES :: nat where
  "MAX_UNIQUE_SAMPLES = 50"

text \<open>\<^verbatim>\<open>Series.unique()\<close>: the distinct cells, each where it first appears.\<close>

definition unique :: "'a list \<Rightarrow> 'a list" where
  "unique xs = rev (remdups (rev xs))"

text \<open>
  One pass of the loop over \<^verbatim>\<open>df.columns\<close>: the entry a column adds to
  \<^verbatim>\<open>categorical_samples\<close>, if any.  \<^verbatim>\<open>nunique()\<close> counts the distinct values that are
  not missing.
\<close>

definition categorical_entry :: "string \<Rightarrow> string option list \<Rightarrow> (payload \<times> payload) list" where
  "categorical_entry col xs =
     (let unique_count = length (remdups (dropna xs))
      in if 0 < unique_count \<and> unique_count \<le> MAX_UNIQUE_SAMPLES then
           [(PStr col, PDict [(PStr ''unique_count'', PInt (int unique_count)),
                              (PStr ''sample_values'', PList (map (opt_payload PStr) (unique xs)))])]
         else if MAX_UNIQUE_SAMPLES < unique_count then
           [(PStr col, PDict [(PStr ''unique_count'', PInt (int unique_count)),
                              (PStr ''note'', PStr (''Too many unique values ('' @ str_nat unique_count
                                                     @ '') to list.''))])]
         else [])"

fun categorical_samples :: "dataframe \<Rightarrow> (payload \<times> payload) list" where
  "categorical_samples [] = []"
| "categorical_samples ((col, Object xs) # df) = categorical_entry col xs @ categorical_samples df"
| "categorical_samples ((col, Category xs) # df) = categorical_entry col xs @ categorical_samples df"
| "categorical_samples ((col, s) # df) = categorical_samples df"

text \<open>
  \<^verbatim>\<open>df.head().T.to_dict()\<close>: for each of the first five rows, its cells by column.  The
  transpose has one dtype for all cells: when every column is numeric and one of them is
  \<^verbatim>\<open>float64\<close>, the \<^verbatim>\<open>int64\<close> cells become floating-point numbers.
\<close>

fun is_float :: "series \<Rightarrow> bool" where
  "is_float (Float64 xs) = True"
| "is_float s = False"

definition upcast :: "dataframe \<Rightarrow> bool" where
  "upcast df \<longleftrightarrow> list_all (\<lambda>(col, s). is_numeric_dtype s) df \<and> list_ex (\<lambda>(col, s). is_float s) df"

fun transposed_cells :: "library \<Rightarrow> bool \<Rightarrow> series \<Rightarrow> payload list" where
  "transposed_cells lib up (Int64 xs) =
     (if up then map (\<lambda>i. PFloat (float64 lib (of_int i))) xs else map PInt xs)"
| "transposed_cells lib up s = cells s"

definition head_sample_t :: "library \<Rightarrow> dataframe \<Rightarrow> payload" where
  "head_sample_t lib df =
     PDict (map (\<lambda>i. (PInt (int i),
                       PDict (map (\<lambda>(col, s). (PStr col, transposed_cells lib (upcast df) s ! i))
                                df)))
                [0 ..< min 5 (len_df df)])"

definition data_summary :: "library \<Rightarrow> world \<Rightarrow> (exn + payload) \<times> world" where
  "data_summary lib w =
     (case frame w of
        None \<Rightarrow> (Inr (error_dict ''DataFrame is None or empty.''), w)
      | Some df \<Rightarrow>
          if df_empty df then (Inr (error_dict ''DataFrame is None or empty.''), w)
          else
            (case describe lib df of
               Inl e \<Rightarrow> (Inl e, w)
             | Inr numerical_stats \<Rightarrow>
                 (Inr (PDict
                    [(PStr ''shape'', PList [PInt (int (len_df df)), PInt (int (length df))]),
                     (PStr ''columns'', PList (map PStr (columns df))),
                     (PStr ''missing_values'',
                        PDict (map (\<lambda>(col, s). (PStr col, PInt (int (missing_count s)))) df)),
                     (PStr ''data_types'',
                        PDict (map (\<lambda>(col, s). (PStr col, PStr (dtype_name s))) df)),
                     (PStr ''numerical_descriptive_stats'', numerical_stats),
                     (PStr ''categorical_metadata'', PDict (categorical_samples df)),
                     (PStr ''head_sample_t'', head_sample_t lib df)]), w)))"

subsection \<open>\<^verbatim>\<open>automated_eda\<close>\<close>

definition required_cols :: "string list" where
  "required_cols = [''sales'', ''profit'', ''category'', ''segment'', ''discount'']"

text \<open>
  Each chart is drawn and then saved under its fixed name before the next one is started, so
  an exception in a later chart leaves the earlier files written.
\<close>

definition automated_eda :: "library \<Rightarrow> world \<Rightarrow> (exn + payload) \<times> world" where
  "automated_eda lib w =
     (case frame w of
        None \<Rightarrow> (Inl (none_has_no ''columns''), w)
      | Some df \<Rightarrow>
          if \<not> list_all (\<lambda>col. col \<in> set (columns df)) required_cols
          then (Inr (error_dict ''Missing required columns for EDA.''), w)
          else
            (case draw lib SalesDistribution df of
               Inl e \<Rightarrow> (Inl e, w)
             | Inr png1 \<Rightarrow>
                 let w1 = w\<lparr>disk := (disk w)(''sales_distribution.png'' \<mapsto> png1)\<rparr> in
                 (case draw lib CategoryPerformance df of
                    Inl e \<Rightarrow> (Inl e, w1)
                  | Inr png2 \<Rightarrow>
                      let w2 = w1\<lparr>disk := (disk w1)(''category_performance.png'' \<mapsto> png2)\<rparr> in
                      (case draw lib DiscountProfitScatter df of
                         Inl e \<Rightarrow> (Inl e, w2)
                       | Inr png3 \<Rightarrow>
                           let w3 = w2\<lparr>disk := (disk w2)(''discount_profit_scatter.png'' \<mapsto> png3)\<rparr> in
                           (Inr (PDict
                              [(PStr ''sales_distribution_plot'', PStr ''sales_distribution.png''),
                               (PStr ''category_performance_plot'', PStr ''category_performance.png''),
                               (PStr ''discount_profit_scatter_plot'',
                                  PStr ''discount_profit_scatter.png'')]), w3)))))"

subsection \<open>\<^verbatim>\<open>check_for_outliers\<close>\<close>

text \<open>
  The row mask \<^verbatim>\<open>(df[c] < lower_bound) | (df[c] > upper_bound)\<close>: both comparisons are
  false on a missing cell.  The four arithmetic operations of the function are those of
  floating point.
\<close>

fun outlier_mask :: "real \<Rightarrow> real \<Rightarrow> real option \<Rightarrow> bool" where
  "outlier_mask lower_bound upper_bound None = False"
| "outlier_mask lower_bound upper_bound (Some x) = (x < lower_bound \<or> upper_bound < x)"

definition check_for_outliers ::
  "library \<Rightarrow> string \<Rightarrow> world \<Rightarrow> (exn + payload) \<times> world" where
  "check_for_outliers lib column_name w =
     (case frame w of
        None \<Rightarrow> (Inl (none_has_no ''columns''), w)
      | Some df \<Rightarrow>
          (case getitem df column_name of
             None \<Rightarrow>
               (Inr (error_dict (''Column '' @ [CHR 0x27] @ column_name @ [CHR 0x27]
                                  @ '' not found or is not numeric.'')), w)
           | Some col \<Rightarrow>
               if \<not> is_numeric_dtype col then
                 (Inr (error_dict (''Column '' @ [CHR 0x27] @ column_name @ [CHR 0x27]
                                    @ '' not found or is not numeric.'')), w)
               else
                 let data = dropna (numbers lib col) in
                 if data = [] then
                   (Inr (error_dict (''Column '' @ [CHR 0x27] @ column_name @ [CHR 0x27]
                                      @ '' is empty after dropping NaN values.'')), w)
                 else
                   let Q1 = quantile data (1 / 4);
                       Q3 = quantile data (3 / 4);
                       IQR = float64 lib (Q3 - Q1);
                       lower_bound = float64 lib (Q1 - float64 lib (3 / 2 * IQR));
                       upper_bound = float64 lib (Q3 + float64 lib (3 / 2 * IQR));
                       outliers = filter (outlier_mask lower_bound upper_bound) (numbers lib col);
                       outlier_count = length outliers;
                       total_count = len_df df;
                       outlier_percentage =
                         float64 lib (float64 lib (real outlier_count / real total_count) * 100)
                   in (Inr (PDict
                         [(PStr ''column'', PStr column_name),
                          (PStr ''Q1'', PFloat (np_round lib Q1 2)),
                          (PStr ''Q3'', PFloat (np_round lib Q3 2)),
                          (PStr ''IQR'', PFloat (np_round lib IQR 2)),
                          (PStr ''lower_bound'', PFloat (np_round lib lower_bound 2)),
                          (PStr ''upper_bound'', PFloat (np_round lib upper_bound 2)),
                          (PStr ''outlier_count'', PInt (int outlier_count)),
                          (PStr ''outlier_percentage'', PFloat (py_round lib outlier_percentage 2)),
                          (PStr ''note'', PStr ''Outliers are defined by the 1.5 * IQR rule.'')]),
                       w)))"

section \<open>The tool dispatcher\<close>

text \<open>
  \<^verbatim>\<open>call_tool\<close> imports the three tool functions when it runs, so it is read over any
  three functions of that shape: each takes the objects it can reach and hands them back with
  its result or its exception.  \<open>'w\<close> is the type of those objects and \<open>'v\<close> the type of an
  argument value.
\<close>

record ('w, 'v) tools =
  tool_data_summary :: "'w \<Rightarrow> (exn + payload) \<times> 'w"
  tool_automated_eda :: "'w \<Rightarrow> (exn + payload) \<times> 'w"
  tool_check_for_outliers :: "'v \<Rightarrow> 'w \<Rightarrow> (exn + payload) \<times> 'w"

text \<open>The module \<^verbatim>\<open>tools\<close> of the repository.\<close>

definition tools_py :: "library \<Rightarrow> (world, string) tools" where
  "tools_py lib =
     \<lparr>tool_data_summary = data_summary lib,
      tool_automated_eda = automated_eda lib,
      tool_check_for_outliers = check_for_outliers lib\<rparr>"

text \<open>\<open>kwargs\<close> is the dictionary of the keyword arguments the function receives.\<close>

definition call_tool ::
  "('w, 'v) tools \<Rightarrow> string \<Rightarrow> 'w \<Rightarrow> (string \<rightharpoonup> 'v) \<Rightarrow> (exn + payload) \<times> 'w" where
  "call_tool T name df kwargs =
     (if name = ''data_summary'' then tool_data_summary T df
      else if name = ''automated_eda'' then tool_automated_eda T df
      else if name = ''check_for_outliers'' then
        (case kwargs ''column_name'' of
           None \<Rightarrow>
             (Inr (error_dict
                ''Tool 'check_for_outliers' requires the 'column_name' parameter.''), df)
         | Some column_name \<Rightarrow> tool_check_for_outliers T column_name df)
      else (Inr (error_dict (''Unknown tool: '' @ name)), df))"

text \<open>
  The call \<^verbatim>\<open>call_tool(name, df, **arguments)\<close>.  \<open>arguments\<close> is a dictionary, given by
  its items in their order, the keys distinct.  Python binds \<open>name\<close> and \<open>df\<close> by
  position, so the first key equal to one of these two parameter names raises
  \<^verbatim>\<open>TypeError\<close> before the body runs; when there is none, the dictionary reaches the body
  as \<open>kwargs\<close>.
\<close>

definition multiple_values :: "string \<Rightarrow> exn" where
  "multiple_values param =
     PyError ''TypeError''
       (''call_tool() got multiple values for argument '' @ CHR 0x27 # param @ [CHR 0x27])"

definition call_tool_unpack ::
  "('w, 'v) tools \<Rightarrow> string \<Rightarrow> 'w \<Rightarrow> (string \<times> 'v) list \<Rightarrow> (exn + payload) \<times> 'w" where
  "call_tool_unpack T name df arguments =
     (case filter (\<lambda>key. key = ''name'' \<or> key = ''df'') (map fst arguments) of
        key # keys \<Rightarrow> (Inl (multiple_values key), df)
      | [] \<Rightarrow> call_tool T name df (map_of arguments))"

section \<open>The model client\<close>

text \<open>
  A tool-call request of the model: its name and its \<^verbatim>\<open>args\<close>, which is a dictionary
  (its items in order) or \<^verbatim>\<open>None\<close>.  A part of a turn, and a turn of the conversation:
  \<^verbatim>\<open>{"role": r, "parts": [...]}\<close> with parts \<^verbatim>\<open>{"text": t}\<close>,
  \<^verbatim>\<open>{"functionCall": c}\<close> or \<^verbatim>\<open>{"functionResponse": {"name": n, "response": d}}\<close>.
\<close>

record 'v function_call =
  fc_name :: string
  fc_args :: "(string \<times> 'v) list option"

datatype 'v part =
    Text string
  | FunctionCall "'v function_call"
  | FunctionResponse string payload

record 'v turn =
  role :: string
  parts :: "'v part list"

text \<open>
  One call of \<^verbatim>\<open>client.models.generate_content\<close>: the model name, the contents (the
  conversation or a prompt) and the configuration, if one is given.  \<open>'t\<close> is the type of the
  tool declarations, which the agent only passes on.
\<close>

datatype 'v contents = History "'v turn list" | Prompt string

record 't generation_config =
  system_instruction :: string
  tools :: 't

record ('v, 't) request =
  model :: string
  contents :: "'v contents"
  config :: "'t generation_config option"

text \<open>
  A response: its tool-call requests (\<^verbatim>\<open>response.function_calls\<close>, empty when there is
  none) and its text (\<^verbatim>\<open>response.text\<close>, which may be \<^verbatim>\<open>None\<close>).
\<close>

record 'v response =
  function_calls :: "'v function_call list"
  response_text :: "string option"

text \<open>
  The client is any function of its own state \<open>'c\<close> and the request: it answers with a
  response or raises, and moves to a new state.  What it raises is an \<^verbatim>\<open>Exception\<close>, the
  class the handler of the function-calling agent catches.
\<close>

type_synonym ('c, 'v, 't) client = "'c \<Rightarrow> ('v, 't) request \<Rightarrow> (exn + 'v response) \<times> 'c"

text \<open>
  What a run has reached so far: the objects of the tools, the client, and the log of the model
  calls issued, each with its outcome.  The log is not a variable of the code; it records the
  calls so that they can be counted.
\<close>

record ('w, 'c, 'v, 't) run =
  world_of :: 'w
  client_of :: 'c
  model_calls :: "(('v, 't) request \<times> (exn + 'v response)) list"

definition generate_content ::
  "('c, 'v, 't) client \<Rightarrow> ('v, 't) request \<Rightarrow> ('w, 'c, 'v, 't, 'z) run_scheme
     \<Rightarrow> (exn + 'v response) \<times> ('w, 'c, 'v, 't, 'z) run_scheme" where
  "generate_content client req st =
     (case client (client_of st) req of
        (out, c') \<Rightarrow> (out, st\<lparr>client_of := c', model_calls := model_calls st @ [(req, out)]\<rparr>))"

section \<open>The function-calling agent\<close>

record ('w, 'c, 'v, 't) agent_state = "('w, 'c, 'v, 't) run" +
  conversation_history :: "'v turn list"

definition max_turns :: nat where
  "max_turns = 5"

text \<open>What \<^verbatim>\<open>dict(None)\<close> raises.\<close>

definition none_not_iterable :: exn where
  "none_not_iterable =
     PyError ''TypeError'' (CHR 0x27 # ''NoneType' object is not iterable'')"

text \<open>
  The body of \<^verbatim>\<open>for turn in range(max_turns)\<close> over the turns still to run, and the
  return after the loop.  \<^verbatim>\<open>dict(tool_call.args)\<close> stands between the two
  \<^verbatim>\<open>try\<close> blocks: what it raises leaves the function.  Both handlers of the tool call
  append the same two turns; they differ in the payload.
\<close>

fun agent_turns ::
  "('w, 'v) tools \<Rightarrow> ('c, 'v, 't) client \<Rightarrow> string \<Rightarrow> 't \<Rightarrow> string \<Rightarrow> nat list
     \<Rightarrow> ('w, 'c, 'v, 't) agent_state \<Rightarrow> (exn + string) \<times> ('w, 'c, 'v, 't) agent_state" where
  "agent_turns T client model_name tools_list instruction [] st =
     (Inr ''Agent exceeded maximum conversation turns without providing a final answer.'', st)"
| "agent_turns T client model_name tools_list instruction (turn # turns) st =
     (case generate_content client
             \<lparr>model = model_name,
              contents = History (conversation_history st),
              config = Some \<lparr>system_instruction = instruction, tools = tools_list\<rparr>\<rparr> st of
        (Inl e, st1) \<Rightarrow>
          (Inr (''API ERROR during turn '' @ str_nat (turn + 1) @ '': '' @ str_exn e), st1)
      | (Inr response, st1) \<Rightarrow>
          (case function_calls response of
             tool_call # others \<Rightarrow>
               (case fc_args tool_call of
                  None \<Rightarrow> (Inl none_not_iterable, st1)
                | Some tool_args \<Rightarrow>
                    (case call_tool_unpack T (fc_name tool_call) (world_of st1) tool_args of
                       (Inr tool_output_data, w') \<Rightarrow>
                         agent_turns T client model_name tools_list instruction turns
                           (st1\<lparr>world_of := w',
                                conversation_history := conversation_history st1 @
                                  [\<lparr>role = ''model'', parts = [FunctionCall tool_call]\<rparr>,
                                   \<lparr>role = ''tool'',
                                    parts = [FunctionResponse (fc_name tool_call)
                                               tool_output_data]\<rparr>]\<rparr>)
                     | (Inl e, w') \<Rightarrow>
                         agent_turns T client model_name tools_list instruction turns
                           (st1\<lparr>world_of := w',
                                conversation_history := conversation_history st1 @
                                  [\<lparr>role = ''model'', parts = [FunctionCall tool_call]\<rparr>,
                                   \<lparr>role = ''tool'',
                                    parts = [FunctionResponse (fc_name tool_call)
                                               (error_dict (''Internal tool execution error: ''
                                                            @ str_exn e))]\<rparr>]\<rparr>)))
           | [] \<Rightarrow>
               (case response_text response of
                  Some t \<Rightarrow>
                    if t \<noteq> [] then (Inr t, st1)
                    else (Inr ''Agent failed to generate a response or requested a tool not handled.'',
                          st1)
                | None \<Rightarrow>
                    (Inr ''Agent failed to generate a response or requested a tool not handled.'',
                     st1))))"

definition enterprise_agent ::
  "('w, 'v) tools \<Rightarrow> string \<Rightarrow> 'w \<Rightarrow> ('c, 'v, 't) client \<Rightarrow> 'c \<Rightarrow> string \<Rightarrow> 't \<Rightarrow> string
     \<Rightarrow> (exn + string) \<times> ('w, 'c, 'v, 't) agent_state" where
  "enterprise_agent T user_query df client c model_name tools_list instruction =
     agent_turns T client model_name tools_list instruction [0 ..< max_turns]
       \<lparr>world_of = df, client_of = c, model_calls = [],
        conversation_history = [\<lparr>role = ''user'', parts = [Text user_query]\<rparr>]\<rparr>"

section \<open>The two-step agent\<close>

definition tool_list :: string where
  "tool_list = ''`data_summary`, `automated_eda`, `check_for_outliers(column_name:str)`''"

definition decision_prompt :: "string \<Rightarrow> string" where
  "decision_prompt user_query =
     ''You are an assistant that can call local python tools. ''
     @ ''The ONLY valid tool names are: '' @ tool_list @ ''. ''
     @ ''When appropriate, respond ONLY with exactly `TOOL:<tool_name>` (e.g. TOOL:automated_eda, or TOOL:check_for_outliers(column_name='profit')) to request a local tool, ''
     @ ''or respond with `RESPONSE:<your answer>` when you can answer directly. ''
     @ ''Do NOT include anything else. Now decide for this user query:\<newline>\<newline>''
     @ ''User query: '' @ user_query @ ''\<newline>''"

definition ask_model_for_action ::
  "string \<Rightarrow> ('c, 'v, 't) client \<Rightarrow> string \<Rightarrow> ('w, 'c, 'v, 't) run
     \<Rightarrow> (exn + string) \<times> ('w, 'c, 'v, 't) run" where
  "ask_model_for_action user_query client model_name st =
     (case generate_content client
             \<lparr>model = model_name, contents = Prompt (decision_prompt user_query), config = None\<rparr>
             st of
        (Inl e, st1) \<Rightarrow> (Inl e, st1)
      | (Inr resp, st1) \<Rightarrow>
          (case response_text resp of
             None \<Rightarrow> (Inl (none_has_no ''strip''), st1)
           | Some t \<Rightarrow> (Inr (strip t), st1)))"

text \<open>
  The parser of the tool string.  \<^verbatim>\<open>split('(')[0]\<close> is the first piece, which a split always
  has; the two pieces of \<^verbatim>\<open>split('=', 1)\<close> exist because the string contains \<open>=\<close>.
  \<open>parse_kwargs\<close> is the dictionary \<open>kwargs\<close> the parser builds, by its items: none or
  one.
\<close>

definition parse_kwargs :: "string \<Rightarrow> (string \<times> string) list" where
  "parse_kwargs name_and_args =
     (case search_params name_and_args of
        None \<Rightarrow> []
      | Some group1 \<Rightarrow>
          let args_str = strip (remove_char (CHR 0x22) (remove_char (CHR 0x27) group1))
          in if contains args_str ''='' then
               (case split1 args_str ''='' of
                  [key, val] \<Rightarrow> [(strip key, strip val)]
                | pieces \<Rightarrow> [])
             else [])"

definition call_tool_two_step ::
  "('w, string) tools \<Rightarrow> string \<Rightarrow> 'w \<Rightarrow> (exn + payload) \<times> 'w" where
  "call_tool_two_step T name_and_args df =
     (let tool_name = strip (hd (split name_and_args ''(''));
          kwargs = parse_kwargs name_and_args
      in call_tool_unpack T tool_name df kwargs)"

definition followup_prompt :: "string \<Rightarrow> string \<Rightarrow> string \<Rightarrow> string" where
  "followup_prompt tool_call_string tool_output_str user_query =
     ''The requested tool has been executed and produced the following output:\<newline>\<newline>''
     @ ''TOOL: '' @ tool_call_string @ ''\<newline>\<newline>OUTPUT:\<newline>'' @ tool_output_str
     @ ''\<newline>\<newline>''
     @ ''Using the original user query and the tool output above, ''
     @ ''produce a helpful, concise summary and any actionable insights. ''
     @ ''Be explicit about the charts produced (if any) and mention their filenames so they can be viewed.''
     @ ''\<newline>\<newline>Original user query: '' @ user_query @ ''\<newline>''"

definition fallback_prompt :: "string \<Rightarrow> string \<Rightarrow> string" where
  "fallback_prompt user_query decision =
     ''User: '' @ user_query @ ''\<newline>The agent decision was irregular ('' @ CHR 0x27 # decision
     @ CHR 0x27 # ''). Please answer the user query directly and professionally.''"

text \<open>
  \<open>py_str\<close> is Python's \<^verbatim>\<open>str\<close> on a tool result.  The value returned is the text of the
  last response, which is \<^verbatim>\<open>None\<close> when that response has no text.  No statement of the
  function or of its two helpers is inside a \<^verbatim>\<open>try\<close>.
\<close>

definition enterprise_agent_new ::
  "(payload \<Rightarrow> string) \<Rightarrow> ('w, string) tools \<Rightarrow> string \<Rightarrow> 'w \<Rightarrow> ('c, 'v, 't) client \<Rightarrow> 'c
     \<Rightarrow> string \<Rightarrow> (exn + string option) \<times> ('w, 'c, 'v, 't) run" where
  "enterprise_agent_new py_str T user_query df client c model_name =
     (case ask_model_for_action user_query client model_name
             \<lparr>world_of = df, client_of = c, model_calls = []\<rparr> of
        (Inl e, st1) \<Rightarrow> (Inl e, st1)
      | (Inr decision, st1) \<Rightarrow>
          if startswith decision ''TOOL:'' then
            (let tool_call_string = strip (split decision ''TOOL:'' ! 1)
             in case call_tool_two_step T tool_call_string (world_of st1) of
                  (Inl e, w') \<Rightarrow> (Inl e, st1\<lparr>world_of := w'\<rparr>)
                | (Inr tool_output, w') \<Rightarrow>
                    let tool_output_str = take 20000 (py_str tool_output)
                    in (case generate_content client
                               \<lparr>model = model_name,
                                contents = Prompt (followup_prompt tool_call_string tool_output_str
                                                     user_query),
                                config = None\<rparr>
                               (st1\<lparr>world_of := w'\<rparr>) of
                          (Inl e, st2) \<Rightarrow> (Inl e, st2)
                        | (Inr final, st2) \<Rightarrow> (Inr (response_text final), st2)))
          else if startswith decision ''RESPONSE:'' then
            (Inr (Some (strip (split1 decision ''RESPONSE:'' ! 1))), st1)
          else
            (case generate_content client
                    \<lparr>model = model_name,
                     contents = Prompt (fallback_prompt user_query decision),
                     config = None\<rparr> st1 of
               (Inl e, st2) \<Rightarrow> (Inl e, st2)
             | (Inr fallback, st2) \<Rightarrow> (Inr (response_text fallback), st2)))"

section \<open>Properties of a conversation\<close>

text \<open>The names of the tool-call requests and of the tool results among the parts of a turn.\<close>

fun requested :: "'v part list \<Rightarrow> string list" where
  "requested [] = []"
| "requested (FunctionCall fc # ps) = fc_name fc # requested ps"
| "requested (p # ps) = requested ps"

fun answered :: "'v part list \<Rightarrow> string list" where
  "answered [] = []"
| "answered (FunctionResponse n d # ps) = n # answered ps"
| "answered (p # ps) = answered ps"

text \<open>
  No request dangles: a turn that requests a tool is followed at once by a turn that holds the
  results of exactly the tools requested and requests nothing itself, and a result stands
  nowhere else.
\<close>

fun no_dangling :: "'v turn list \<Rightarrow> bool" where
  "no_dangling [] = True"
| "no_dangling [t] = (requested (parts t) = [] \<and> answered (parts t) = [])"
| "no_dangling (t # r # ts) =
     (if requested (parts t) \<noteq> [] then
        answered (parts t) = [] \<and> answered (parts r) = requested (parts t)
        \<and> requested (parts r) = [] \<and> no_dangling ts
      else answered (parts t) = [] \<and> no_dangling (r # ts))"

text \<open>An entry of the log whose request sent a conversation with no dangling request.\<close>

definition sends_no_dangling :: "('v, 't) request \<times> (exn + 'v response) \<Rightarrow> bool" where
  "sends_no_dangling entry =
     (case contents (fst entry) of History h \<Rightarrow> no_dangling h | Prompt p \<Rightarrow> False)"

text \<open>The outcome of a model call that lets the function-calling loop go on: a tool request.\<close>

fun requests_tool :: "exn + 'v response \<Rightarrow> bool" where
  "requests_tool (Inl e) = False"
| "requests_tool (Inr resp) = (function_calls resp \<noteq> [])"

fun raised :: "exn + 'a \<Rightarrow> bool" where
  "raised (Inl e) = True"
| "raised (Inr x) = False"

text \<open>
  The first tool-call request of a response carries a dictionary of arguments; a response
  without a request, and a failed call, have nothing to carry.
\<close>

fun carries_dict :: "exn + 'v response \<Rightarrow> bool" where
  "carries_dict (Inl e) = True"
| "carries_dict (Inr resp) =
     (case function_calls resp of [] \<Rightarrow> True | tool_call # others \<Rightarrow> fc_args tool_call \<noteq> None)"

section \<open>Collaborators for the examples\<close>

text \<open>A client that plays a script: each call takes the next outcome of the list.\<close>

definition scripted :: "((exn + 'v response) list, 'v, 't) client" where
  "scripted script req =
     (case script of
        [] \<Rightarrow> (Inl (PyError ''RuntimeError'' ''the script is exhausted''), [])
      | out # rest \<Rightarrow> (out, rest))"

definition says :: "string \<Rightarrow> exn + 'v response" where
  "says t = Inr \<lparr>function_calls = [], response_text = Some t\<rparr>"

definition wants :: "string \<Rightarrow> (string \<times> 'v) list \<Rightarrow> exn + 'v response" where
  "wants name arguments =
     Inr \<lparr>function_calls = [\<lparr>fc_name = name, fc_args = Some arguments\<rparr>], response_text = None\<rparr>"

text \<open>A tool request whose \<^verbatim>\<open>args\<close> is \<^verbatim>\<open>None\<close>.\<close>

definition wants_bare :: "string \<Rightarrow> exn + 'v response" where
  "wants_bare name =
     Inr \<lparr>function_calls = [\<lparr>fc_name = name, fc_args = None\<rparr>], response_text = None\<rparr>"

definition timeout :: exn where
  "timeout = PyError ''ServerError'' ''503 UNAVAILABLE''"

text \<open>
  A library whose statistics are empty and whose charts are one byte each.  It takes every
  real number for a floating-point number, which is right on the numbers of the examples, and
  rounds a \<^verbatim>\<open>numpy.float64\<close> as Python rounds a \<^verbatim>\<open>float\<close>.
\<close>

definition plain_library :: library where
  "plain_library =
     \<lparr>describe = (\<lambda>df. Inr (PDict [])),
      draw = (\<lambda>ch df. Inr ''P''),
      float64 = (\<lambda>x. x),
      np_round = (\<lambda>x n. of_int (round_half_even (x * 10 ^ n)) / 10 ^ n)\<rparr>"

text \<open>
  A library that differs from it on one number: \<open>2\<^sup>5\<^sup>3 + 1\<close>, the first integer that
  \<^verbatim>\<open>float64\<close> does not represent, becomes \<open>2\<^sup>5\<^sup>3\<close>.
\<close>

definition coarse_library :: library where
  "coarse_library =
     plain_library
       \<lparr>float64 := (\<lambda>x. if x = 9007199254740993 then 9007199254740992 else x),
        np_round := (\<lambda>x n. x)\<rparr>"

definition big_frame :: world where
  "big_frame =
     \<lparr>frame = Some [(''quantity'', Int64 [9007199254740993, 9007199254740993])],
      disk = Map.empty\<rparr>"

definition superstore :: world where
  "superstore =
     \<lparr>frame = Some [(''category'', Object [Some ''Furniture'', Some ''Technology'', None]),
                    (''segment'', Object [Some ''Consumer'', Some ''Consumer'', Some ''Corporate'']),
                    (''sales'', Float64 [Some 10, Some 20, Some 30]),
                    (''discount'', Float64 [Some 0, Some (1 / 4), None]),
                    (''profit'', Float64 [Some 4, Some 4, None])],
      disk = Map.empty\<rparr>"

text \<open>A table of one column and two rows, the second without a value.\<close>

definition nan_frame :: world where
  "nan_frame = \<lparr>frame = Some [(''profit'', Float64 [Some 1, None])], disk = Map.empty\<rparr>"

text \<open>Tools of which the first always raises.\<close>

definition failing_tools :: "(world, 'v) tools" where
  "failing_tools =
     \<lparr>tool_data_summary = (\<lambda>w. (Inl (PyError ''ValueError'' ''No objects to concatenate''), w)),
      tool_automated_eda = automated_eda plain_library,
      tool_check_for_outliers = (\<lambda>v w. (Inr PNull, w))\<rparr>"

text \<open>A stand-in for \<^verbatim>\<open>str\<close> that tells an error dictionary from any other result.\<close>

fun short_str :: "payload \<Rightarrow> string" where
  "short_str (PDict ((PStr k, v) # kvs)) = (if k = ''error'' then ''error'' else ''report'')"
| "short_str p = ''value''"

text \<open>
  A model that asks for a tool in every turn.  With \<open>failing_tools\<close> the first tool raises, the
  second returns, the third is unknown, the fourth lacks its argument and the fifth passes a
  key that is the name of a parameter of \<^verbatim>\<open>call_tool\<close>.
\<close>

definition eager_script :: "(exn + string response) list" where
  "eager_script =
     [wants ''data_summary'' [],
      wants ''check_for_outliers'' [(''column_name'', ''profit'')],
      wants ''plot'' [],
      wants ''check_for_outliers'' [],
      wants ''automated_eda'' [(''name'', ''x'')],
      says ''never reached'']"

definition eager_run ::
  "(exn + string) \<times> (world, (exn + string response) list, string, unit) agent_state" where
  "eager_run =
     enterprise_agent failing_tools ''How many rows?'' superstore scripted eager_script
       ''gemini'' () ''Be brief.''"

text \<open>A model whose first tool request has \<^verbatim>\<open>None\<close> for its arguments.\<close>

definition bare_run ::
  "(exn + string) \<times> (world, (exn + string response) list, string, unit) agent_state" where
  "bare_run =
     enterprise_agent (tools_py plain_library) ''How many rows?'' superstore scripted
       [wants_bare ''data_summary'', says ''never reached''] ''gemini'' () ''Be brief.''"

text \<open>A model whose second call fails, and one whose first call fails.\<close>

definition outage_run ::
  "(exn + string) \<times> (world, (exn + string response) list, string, unit) agent_state" where
  "outage_run =
     enterprise_agent failing_tools ''How many rows?'' superstore scripted
       [wants ''plot'' [], Inl timeout, says ''never reached'']
       ''gemini'' () ''Be brief.''"

definition outage_new_run ::
  "(exn + string option) \<times> (world, (exn + string response) list, string, unit) run" where
  "outage_new_run =
     enterprise_agent_new short_str (tools_py plain_library) ''How many rows?'' superstore
       scripted [Inl timeout, says ''never reached''] ''gemini''"

text \<open>Three decisions of the two-step agent: irregular, a direct answer, and the outlier tool.\<close>

definition irregular_run ::
  "(exn + string option) \<times> (world, (exn + string response) list, string, unit) run" where
  "irregular_run =
     enterprise_agent_new short_str (tools_py plain_library) ''How many rows?'' superstore
       scripted [says ''MAYBE:do something'', says ''Three rows.''] ''gemini''"

definition direct_run ::
  "(exn + string option) \<times> (world, (exn + string response) list, string, unit) run" where
  "direct_run =
     enterprise_agent_new short_str (tools_py plain_library) ''How many rows?'' superstore
       scripted [says '' RESPONSE: Three rows. '', says ''never reached''] ''gemini''"

definition profit_run ::
  "(exn + string option) \<times> (world, (exn + string response) list, string, unit) run" where
  "profit_run =
     enterprise_agent_new short_str (tools_py plain_library) ''Any outliers?'' superstore
       scripted [says ''  TOOL:check_for_outliers(column_name='profit')\<newline>'',
                 says ''No outliers in profit.''] ''gemini''"

section \<open>Properties of the tools\<close>

subsection \<open>Quantiles of a constant column\<close>

lemma sort_const: "\<forall>x\<in>set xs. x = v \<Longrightarrow> sort xs = (xs :: real list)"
  by (induction xs) (auto simp: insort_is_Cons)

lemma quantile_const:
  assumes "xs \<noteq> []" and "\<forall>x\<in>set xs. x = v" and "0 \<le> q" and "q \<le> 1"
  shows "quantile xs q = v"
proof -
  let ?h = "real (length xs - 1) * q"
  have "?h \<le> real (length xs - 1)"
    using assms(3,4) by (simp add: mult_left_le)
  then have "\<lfloor>?h\<rfloor> \<le> int (length xs - 1)"
    by linarith
  then have "nat \<lfloor>?h\<rfloor> \<le> length xs - 1"
    by linarith
  with assms(1) have lt: "nat \<lfloor>?h\<rfloor> < length xs"
    by (cases xs) auto
  have s: "sort xs = xs"
    using assms(2) by (rule sort_const)
  define i where "i = nat \<lfloor>?h\<rfloor>"
  have "i < length xs"
    unfolding i_def by (rule lt)
  then have "xs ! i \<in> set xs"
    by (rule nth_mem)
  with assms(2) have a: "xs ! i = v"
    by blast
  have b: "Suc i < length xs \<Longrightarrow> xs ! Suc i = v"
    using assms(2) by simp
  show ?thesis
    unfolding quantile_def Let_def s i_def [symmetric]
    using a b by simp
qed


lemma py_round_0: "float64 lib 0 = 0 \<Longrightarrow> py_round lib 0 n = 0"
  by (simp add: py_round_def round_half_even_def)

lemma dropna_Some: "dropna (map (\<lambda>x. Some (f x)) xs) = map f xs"
  by (induction xs) auto

lemma outlier_mask_collapsed: "outlier_mask v v c \<longleftrightarrow> c \<noteq> None \<and> c \<noteq> Some v"
  by (cases c) auto

lemma filter_mask_const:
  "\<forall>x\<in>set (dropna cs). x = v \<Longrightarrow> filter (outlier_mask v v) cs = []"
  by (induction cs rule: dropna.induct) auto

lemma constant_column_report:
  assumes "frame w = Some df" and "getitem df column_name = Some col"
    and "is_numeric_dtype col" and "dropna (numbers lib col) \<noteq> []"
    and "\<forall>x\<in>set (dropna (numbers lib col)). x = v"
    and "float64 lib 0 = 0" and "float64 lib v = v"
  shows "check_for_outliers lib column_name w =
     (Inr (PDict
        [(PStr ''column'', PStr column_name),
         (PStr ''Q1'', PFloat (np_round lib v 2)),
         (PStr ''Q3'', PFloat (np_round lib v 2)),
         (PStr ''IQR'', PFloat (np_round lib 0 2)),
         (PStr ''lower_bound'', PFloat (np_round lib v 2)),
         (PStr ''upper_bound'', PFloat (np_round lib v 2)),
         (PStr ''outlier_count'', PInt 0),
         (PStr ''outlier_percentage'', PFloat 0),
         (PStr ''note'', PStr ''Outliers are defined by the 1.5 * IQR rule.'')]), w)"
proof -
  have q1: "quantile (dropna (numbers lib col)) (1 / 4) = v"
    using assms(4,5) by (intro quantile_const) auto
  have q3: "quantile (dropna (numbers lib col)) (3 / 4) = v"
    using assms(4,5) by (intro quantile_const) auto
  have f: "filter (outlier_mask v v) (numbers lib col) = []"
    using assms(5) by (rule filter_mask_const)
  show ?thesis
    using assms(1-4,6,7) by (simp add: check_for_outliers_def Let_def q1 q3 f py_round_0)
qed

text \<open>
  On an \<^verbatim>\<open>int64\<close> column the common value is the floating-point number of the integer;
  rounding to \<^verbatim>\<open>float64\<close> leaves a floating-point number as it is.
\<close>

lemma int64_constant_column_report:
  assumes "frame w = Some df" and "getitem df column_name = Some (Int64 xs)"
    and "xs \<noteq> []" and "\<forall>i\<in>set xs. i = k"
    and "float64 lib 0 = 0"
    and "float64 lib (float64 lib (of_int k)) = float64 lib (of_int k)"
  shows "check_for_outliers lib column_name w =
     (Inr (PDict
        [(PStr ''column'', PStr column_name),
         (PStr ''Q1'', PFloat (np_round lib (float64 lib (of_int k)) 2)),
         (PStr ''Q3'', PFloat (np_round lib (float64 lib (of_int k)) 2)),
         (PStr ''IQR'', PFloat (np_round lib 0 2)),
         (PStr ''lower_bound'', PFloat (np_round lib (float64 lib (of_int k)) 2)),
         (PStr ''upper_bound'', PFloat (np_round lib (float64 lib (of_int k)) 2)),
         (PStr ''outlier_count'', PInt 0),
         (PStr ''outlier_percentage'', PFloat 0),
         (PStr ''note'', PStr ''Outliers are defined by the 1.5 * IQR rule.'')]), w)"
proof -
  have i: "is_numeric_dtype (Int64 xs)"
    by simp
  have n: "dropna (numbers lib (Int64 xs)) \<noteq> []"
    using assms(3) by (cases xs) auto
  have a: "\<forall>x\<in>set (dropna (numbers lib (Int64 xs))). x = float64 lib (of_int k)"
    using assms(4) by (induction xs) auto
  show ?thesis
    by (rule constant_column_report [OF assms(1,2) i n a assms(5,6)])
qed

text \<open>
  The column of two cells \<open>2\<^sup>5\<^sup>3 + 1\<close>: the quartiles and the bounds are \<open>2\<^sup>5\<^sup>3\<close>, and
  neither row is an outlier.
\<close>

lemma big_frame_report:
  "check_for_outliers coarse_library ''quantity'' big_frame =
     (Inr (PDict
        [(PStr ''column'', PStr ''quantity''),
         (PStr ''Q1'', PFloat 9007199254740992),
         (PStr ''Q3'', PFloat 9007199254740992),
         (PStr ''IQR'', PFloat 0),
         (PStr ''lower_bound'', PFloat 9007199254740992),
         (PStr ''upper_bound'', PFloat 9007199254740992),
         (PStr ''outlier_count'', PInt 0),
         (PStr ''outlier_percentage'', PFloat 0),
         (PStr ''note'', PStr ''Outliers are defined by the 1.5 * IQR rule.'')]), big_frame)"
proof -
  have "frame big_frame = Some [(''quantity'', Int64 [9007199254740993, 9007199254740993])]"
    by (simp add: big_frame_def)
  moreover have "getitem [(''quantity'', Int64 [9007199254740993, 9007199254740993])] ''quantity''
      = Some (Int64 [9007199254740993, 9007199254740993])"
    by (simp add: getitem_def)
  moreover have "\<forall>i\<in>set [9007199254740993, 9007199254740993 :: int]. i = 9007199254740993"
    by simp
  moreover have "float64 coarse_library 0 = 0"
    by (simp add: coarse_library_def plain_library_def)
  moreover have c: "float64 coarse_library (of_int 9007199254740993) = 9007199254740992"
    by (simp add: coarse_library_def plain_library_def)
  moreover have "float64 coarse_library 9007199254740992 = 9007199254740992"
    by (simp add: coarse_library_def plain_library_def)
  ultimately show ?thesis
    using int64_constant_column_report
            [of big_frame "[(''quantity'', Int64 [9007199254740993, 9007199254740993])]"
                "''quantity''" "[9007199254740993, 9007199254740993]" 9007199254740993
                coarse_library]
    by (simp add: coarse_library_def plain_library_def)
qed

text \<open>
  Whenever both quartiles are \<open>v\<close>, the rows counted are those that hold a number other than
  \<open>v\<close>, and the percentage is taken over all rows.
\<close>

lemma zero_iqr_report:
  assumes "frame w = Some df" and "getitem df column_name = Some col"
    and "is_numeric_dtype col" and "dropna (numbers lib col) \<noteq> []"
    and "quantile (dropna (numbers lib col)) (1 / 4) = v"
    and "quantile (dropna (numbers lib col)) (3 / 4) = v"
    and "float64 lib 0 = 0" and "float64 lib v = v"
  shows "check_for_outliers lib column_name w =
     (Inr (PDict
        [(PStr ''column'', PStr column_name),
         (PStr ''Q1'', PFloat (np_round lib v 2)),
         (PStr ''Q3'', PFloat (np_round lib v 2)),
         (PStr ''IQR'', PFloat (np_round lib 0 2)),
         (PStr ''lower_bound'', PFloat (np_round lib v 2)),
         (PStr ''upper_bound'', PFloat (np_round lib v 2)),
         (PStr ''outlier_count'',
            PInt (int (length (filter (\<lambda>c. c \<noteq> None \<and> c \<noteq> Some v) (numbers lib col))))),
         (PStr ''outlier_percentage'',
            PFloat (py_round lib
                      (float64 lib
                         (float64 lib
                            (real (length (filter (\<lambda>c. c \<noteq> None \<and> c \<noteq> Some v) (numbers lib col)))
                             / real (len_df df)) * 100)) 2)),
         (PStr ''note'', PStr ''Outliers are defined by the 1.5 * IQR rule.'')]), w)"
proof -
  have f: "filter (outlier_mask v v) (numbers lib col)
      = filter (\<lambda>c. c \<noteq> None \<and> c \<noteq> Some v) (numbers lib col)"
    by (rule filter_cong [OF refl]) (rule outlier_mask_collapsed)
  show ?thesis
    using assms by (simp add: check_for_outliers_def Let_def f)
qed


text \<open>The column \<open>profit\<close> of the example table: two rows hold \<open>4\<close>, the third holds nothing.\<close>

lemma plain_round_4: "np_round plain_library 4 2 = 4"
  by (simp add: plain_library_def round_half_even_def)

lemma plain_round_0: "np_round plain_library 0 2 = 0"
  by (simp add: plain_library_def round_half_even_def)



subsection \<open>The dataset is only read\<close>

lemma data_summary_world: "snd (data_summary lib w) = w"
  by (simp add: data_summary_def split: option.splits sum.splits)

lemma check_for_outliers_world: "snd (check_for_outliers lib column_name w) = w"
  by (simp add: check_for_outliers_def Let_def split: option.splits)

lemma automated_eda_frame: "frame (snd (automated_eda lib w)) = frame w"
  by (simp add: automated_eda_def Let_def split: option.splits sum.splits)

text \<open>
  Claim C9.  Whatever the library returns or raises, \<^verbatim>\<open>data_summary\<close> and
  \<^verbatim>\<open>check_for_outliers\<close> hand back every object as they found it, and
  \<^verbatim>\<open>automated_eda\<close>, which writes its chart files, hands back the same DataFrame; so does
  every call of the dispatcher on these tools.
\<close>

theorem tools_read_only:
  "snd (data_summary lib w) = w
   \<and> frame (snd (automated_eda lib w)) = frame w
   \<and> snd (check_for_outliers lib column_name w) = w
   \<and> frame (snd (call_tool (tools_py lib) name w kwargs)) = frame w"
  by (simp add: data_summary_world check_for_outliers_world automated_eda_frame
        call_tool_def tools_py_def split: option.splits)

theorem tools_read_only_witness:
  "frame (snd (automated_eda plain_library superstore)) = frame superstore
   \<and> dom (disk (snd (automated_eda plain_library superstore)))
       = {''sales_distribution.png'', ''category_performance.png'', ''discount_profit_scatter.png''}
   \<and> snd (data_summary plain_library superstore) = superstore
   \<and> snd (check_for_outliers plain_library ''sales'' superstore) = superstore"
proof -
  have "dom (disk (snd (automated_eda plain_library superstore)))
       = {''sales_distribution.png'', ''category_performance.png'', ''discount_profit_scatter.png''}"
    by (auto simp: automated_eda_def plain_library_def superstore_def columns_def required_cols_def)
  then show ?thesis
    using tools_read_only [of plain_library superstore "''sales''"]
    by simp
qed

section \<open>Properties of the dispatcher\<close>

text \<open>
  Claim C7.  A name that is none of the three tool names gets the error dictionary
  \<^verbatim>\<open>{"error": "Unknown tool: <name>"}\<close>, whatever the dataset and the arguments.  The
  result is a value, not an exception, and it is the same for all tool functions, also for ones
  that raise or change the objects they are given: none of them is called.
\<close>

theorem call_tool_unknown:
  assumes "name \<notin> {''data_summary'', ''automated_eda'', ''check_for_outliers''}"
  shows "call_tool T name df kwargs =
           (Inr (PDict [(PStr ''error'', PStr (''Unknown tool: '' @ name))]), df)"
  using assms by (simp add: call_tool_def error_dict_def)

theorem call_tool_unknown_witness:
  "''drop_table'' \<notin> {''data_summary'', ''automated_eda'', ''check_for_outliers''}
   \<and> call_tool failing_tools ''drop_table'' superstore [''column_name'' \<mapsto> ''profit''] =
       (Inr (PDict [(PStr ''error'', PStr ''Unknown tool: drop_table'')]), superstore)"
  using call_tool_unknown
          [of "''drop_table''" failing_tools superstore "[''column_name'' \<mapsto> ''profit'']"]
  by simp

text \<open>
  Claim C8.  When the keyword arguments hold no \<open>column_name\<close>, dispatching
  \<^verbatim>\<open>check_for_outliers\<close> gives the fixed error dictionary, whatever else they hold; the
  result does not depend on the tool functions, so the tool is not called.
\<close>

theorem call_tool_missing_column_name:
  assumes "kwargs ''column_name'' = None"
  shows "call_tool T ''check_for_outliers'' df kwargs =
           (Inr (PDict [(PStr ''error'',
                         PStr ''Tool 'check_for_outliers' requires the 'column_name' parameter.'')]),
            df)"
  using assms by (simp add: call_tool_def error_dict_def)

theorem call_tool_missing_column_name_witness:
  "[''column'' \<mapsto> ''profit'', ''threshold'' \<mapsto> ''3''] ''column_name'' = None
   \<and> call_tool (tools_py plain_library) ''check_for_outliers'' superstore
        [''column'' \<mapsto> ''profit'', ''threshold'' \<mapsto> ''3''] =
       (Inr (PDict [(PStr ''error'',
                     PStr ''Tool 'check_for_outliers' requires the 'column_name' parameter.'')]),
        superstore)"
  using call_tool_missing_column_name
          [of "[''column'' \<mapsto> ''profit'', ''threshold'' \<mapsto> ''3'']" "tools_py plain_library"
              superstore]
  by simp

text \<open>
  Claim C10.  The two tools without parameters are called on the dataset alone: whatever
  keyword arguments the dispatcher receives, its result is that of the tool function.
\<close>

theorem call_tool_ignores_arguments:
  "call_tool T ''data_summary'' df kwargs = tool_data_summary T df
   \<and> call_tool T ''automated_eda'' df kwargs = tool_automated_eda T df
   \<and> call_tool (tools_py lib) ''data_summary'' w kwargs' = data_summary lib w
   \<and> call_tool (tools_py lib) ''automated_eda'' w kwargs' = automated_eda lib w"
  by (simp add: call_tool_def tools_py_def)

theorem call_tool_ignores_arguments_witness:
  "call_tool (tools_py plain_library) ''data_summary'' nan_frame [''column_name'' \<mapsto> ''profit'']
     = data_summary plain_library nan_frame
   \<and> fst (data_summary plain_library nan_frame) =
       Inr (PDict
         [(PStr ''shape'', PList [PInt 2, PInt 1]),
          (PStr ''columns'', PList [PStr ''profit'']),
          (PStr ''missing_values'', PDict [(PStr ''profit'', PInt 1)]),
          (PStr ''data_types'', PDict [(PStr ''profit'', PStr ''float64'')]),
          (PStr ''numerical_descriptive_stats'', PDict []),
          (PStr ''categorical_metadata'', PDict []),
          (PStr ''head_sample_t'',
             PDict [(PInt 0, PDict [(PStr ''profit'', PFloat 1)]),
                    (PInt 1, PDict [(PStr ''profit'', PNull)])])])"
proof -
  have "[0 ..< 2] = [0, Suc 0]"
    by (simp add: upt_rec)
  then have "fst (data_summary plain_library nan_frame) =
       Inr (PDict
         [(PStr ''shape'', PList [PInt 2, PInt 1]),
          (PStr ''columns'', PList [PStr ''profit'']),
          (PStr ''missing_values'', PDict [(PStr ''profit'', PInt 1)]),
          (PStr ''data_types'', PDict [(PStr ''profit'', PStr ''float64'')]),
          (PStr ''numerical_descriptive_stats'', PDict []),
          (PStr ''categorical_metadata'', PDict []),
          (PStr ''head_sample_t'',
             PDict [(PInt 0, PDict [(PStr ''profit'', PFloat 1)]),
                    (PInt 1, PDict [(PStr ''profit'', PNull)])])])"
    by (simp add: data_summary_def nan_frame_def plain_library_def df_empty_def columns_def
          head_sample_t_def upcast_def)
  then show ?thesis
    using call_tool_ignores_arguments
            [of "tools_py plain_library" nan_frame "[''column_name'' \<mapsto> ''profit'']"
                plain_library nan_frame "[''column_name'' \<mapsto> ''profit'']"]
    by (simp add: tools_py_def)
qed

section \<open>Reads that stay in range\<close>

text \<open>
  The pieces the code takes from a split exist: a split has a first piece, it has a second one
  when the string starts with the separator, and \<^verbatim>\<open>split(sep, 1)\<close> has two pieces when
  the string contains the separator.  The position a quantile reads is inside the data.
\<close>

lemma split_aux_nonempty: "split_aux sep acc s \<noteq> []"
  by (induction s arbitrary: acc) auto

lemma split_nonempty: "split s sep \<noteq> []"
  by (simp add: split_def split_aux_nonempty)

lemma split_startswith:
  assumes "sep \<noteq> []" and "startswith s sep"
  shows "2 \<le> length (split s sep)"
proof (cases s)
  case Nil
  with assms show ?thesis
    by (simp add: startswith_def)
next
  case (Cons c cs)
  have "1 \<le> length (split_aux sep [] (drop (length sep - 1) cs))"
    using split_aux_nonempty [of sep "[]" "drop (length sep - 1) cs"]
    by (cases "split_aux sep [] (drop (length sep - 1) cs)") auto
  with assms Cons show ?thesis
    by (simp add: split_def startswith_def)
qed

lemma split1_contains:
  "sep \<noteq> [] \<Longrightarrow> contains s sep \<Longrightarrow> length (split1_aux sep acc s) = 2"
  by (induction s arbitrary: acc) auto

lemma split1_startswith:
  assumes "sep \<noteq> []" and "startswith s sep"
  shows "split1 s sep = [[], drop (length sep) s]"
proof (cases s)
  case Nil
  with assms show ?thesis
    by (simp add: startswith_def)
next
  case (Cons c cs)
  from assms(1) have "drop (length sep - 1) cs = drop (length sep) (c # cs)"
    by (cases sep) auto
  with assms Cons show ?thesis
    by (simp add: split1_def startswith_def)
qed

lemma quantile_index_in_range:
  assumes "xs \<noteq> []" and "0 \<le> q" and "q \<le> 1"
  shows "nat \<lfloor>real (length xs - 1) * q\<rfloor> < length xs"
proof -
  have "real (length xs - 1) * q \<le> real (length xs - 1)"
    using assms(2,3) by (simp add: mult_left_le)
  then have "\<lfloor>real (length xs - 1) * q\<rfloor> \<le> int (length xs - 1)"
    by linarith
  then have "nat \<lfloor>real (length xs - 1) * q\<rfloor> \<le> length xs - 1"
    by linarith
  with assms(1) show ?thesis
    by (cases xs) auto
qed

section \<open>Keyword arguments at the call\<close>

text \<open>
  The two agents call the dispatcher with \<^verbatim>\<open>**arguments\<close>.  An argument named like
  one of its positional parameters raises before the body runs, the first such key being
  named; any other dictionary reaches the body as \<open>kwargs\<close>.
\<close>

lemma call_tool_unpack_collision:
  "key = ''name'' \<or> key = ''df'' \<Longrightarrow>
   ''name'' \<notin> fst ` set before \<Longrightarrow> ''df'' \<notin> fst ` set before \<Longrightarrow>
   call_tool_unpack T name df (before @ (key, v) # after) = (Inl (multiple_values key), df)"
proof -
  assume k: "key = ''name'' \<or> key = ''df''"
    and "''name'' \<notin> fst ` set before" and "''df'' \<notin> fst ` set before"
  then have "filter (\<lambda>key. key = ''name'' \<or> key = ''df'') (map fst before) = []"
    by (fastforce simp: filter_empty_conv image_iff)
  with k show ?thesis
    by (auto simp: call_tool_unpack_def)
qed

lemma call_tool_unpack_plain:
  "''name'' \<notin> fst ` set arguments \<Longrightarrow> ''df'' \<notin> fst ` set arguments \<Longrightarrow>
   call_tool_unpack T name df arguments = call_tool T name df (map_of arguments)"
proof -
  assume "''name'' \<notin> fst ` set arguments" and "''df'' \<notin> fst ` set arguments"
  then have "filter (\<lambda>key. key = ''name'' \<or> key = ''df'') (map fst arguments) = []"
    by (fastforce simp: filter_empty_conv image_iff)
  then show ?thesis
    by (simp add: call_tool_unpack_def)
qed

section \<open>Properties of the function-calling agent\<close>

subsection \<open>Invariants of the loop\<close>

lemma no_dangling_append:
  "no_dangling xs \<Longrightarrow> no_dangling ys \<Longrightarrow> no_dangling (xs @ ys)"
proof (induction xs rule: no_dangling.induct)
  case 1
  then show ?case by simp
next
  case (2 t)
  then show ?case by (cases ys) auto
next
  case (3 t r ts)
  then show ?case by (auto split: if_splits)
qed

lemma no_dangling_pair:
  "no_dangling [\<lparr>role = ''model'', parts = [FunctionCall fc]\<rparr>,
                \<lparr>role = ''tool'', parts = [FunctionResponse (fc_name fc) d]\<rparr>]"
  by simp

lemma agent_turns_log:
  "agent_turns T client m decls ins turns st = (res, st') \<Longrightarrow>
   \<exists>new. model_calls st' = model_calls st @ new \<and> length new \<le> length turns
     \<and> (list_all requests_tool (map snd new) \<and> list_all carries_dict (map snd new) \<longrightarrow>
          res = Inr ''Agent exceeded maximum conversation turns without providing a final answer.''
          \<and> length new = length turns)"
proof (induction turns arbitrary: st)
  case Nil
  then show ?case by simp
next
  case (Cons turn turns)
  obtain out c' where cl: "client (client_of st)
             \<lparr>model = m,
              contents = History (conversation_history st),
              config = Some \<lparr>system_instruction = ins, tools = decls\<rparr>\<rparr> = (out, c')"
    by (cases "client (client_of st)
             \<lparr>model = m,
              contents = History (conversation_history st),
              config = Some \<lparr>system_instruction = ins, tools = decls\<rparr>\<rparr>") auto
  show ?case
    using Cons.prems cl
    apply (simp add: generate_content_def split: sum.splits list.splits prod.splits option.splits if_splits)
         apply (auto dest!: Cons.IH)
    done
qed

lemma agent_turns_no_dangling:
  "agent_turns T client m decls ins turns st = (res, st') \<Longrightarrow>
   no_dangling (conversation_history st) \<Longrightarrow> list_all sends_no_dangling (model_calls st) \<Longrightarrow>
   no_dangling (conversation_history st') \<and> list_all sends_no_dangling (model_calls st')"
proof (induction turns arbitrary: st)
  case Nil
  then show ?case by simp
next
  case (Cons turn turns)
  obtain out c' where cl: "client (client_of st)
             \<lparr>model = m,
              contents = History (conversation_history st),
              config = Some \<lparr>system_instruction = ins, tools = decls\<rparr>\<rparr> = (out, c')"
    by (cases "client (client_of st)
             \<lparr>model = m,
              contents = History (conversation_history st),
              config = Some \<lparr>system_instruction = ins, tools = decls\<rparr>\<rparr>") auto
  show ?case
    using Cons.prems cl
    apply (simp add: generate_content_def split: sum.splits list.splits prod.splits option.splits if_splits)
         apply (auto dest!: Cons.IH simp: sends_no_dangling_def no_dangling_append)
    done
qed



subsection \<open>Evaluating the example runs\<close>

lemma upt5: "[0 ..< max_turns] = [0, 1, 2, 3, 4]"
  by (simp add: max_turns_def upt_rec)

lemmas run_simps = enterprise_agent_def eager_run_def eager_script_def enterprise_agent_new_def
  ask_model_for_action_def outage_run_def outage_new_run_def irregular_run_def direct_run_def profit_run_def timeout_def generate_content_def
  scripted_def wants_def says_def call_tool_unpack_def call_tool_def failing_tools_def upt5
  error_dict_def multiple_values_def

subsection \<open>No dangling request\<close>

text \<open>
  Claim C1.  Whatever the model answers and whatever the tools do, also when a tool or the call
  of the dispatcher raises, every conversation sent to the model and the conversation at the
  end of the run have no dangling request: each turn that requests a tool is followed at once
  by one turn with the result of that tool.
\<close>

theorem enterprise_agent_no_dangling:
  "list_all sends_no_dangling (model_calls (snd (enterprise_agent T q df client c m decls ins)))
   \<and> no_dangling (conversation_history (snd (enterprise_agent T q df client c m decls ins)))"
proof -
  obtain res st' where r: "enterprise_agent T q df client c m decls ins = (res, st')"
    by (cases "enterprise_agent T q df client c m decls ins")
  from agent_turns_no_dangling [OF r [unfolded enterprise_agent_def]] show ?thesis
    by (simp add: r)
qed

text \<open>
  In the example the first tool raises and the second returns; the third request names no
  tool, the fourth lacks its argument and the call of the fifth raises \<^verbatim>\<open>TypeError\<close>.
\<close>

theorem enterprise_agent_no_dangling_witness:
  "list_all sends_no_dangling (model_calls (snd eager_run))
   \<and> no_dangling (conversation_history (snd eager_run))
   \<and> map role (conversation_history (snd eager_run))
       = [''user'', ''model'', ''tool'', ''model'', ''tool'', ''model'', ''tool'', ''model'', ''tool'',
          ''model'', ''tool'']
   \<and> parts (conversation_history (snd eager_run) ! 2)
       = [FunctionResponse ''data_summary''
            (PDict [(PStr ''error'',
                     PStr ''Internal tool execution error: No objects to concatenate'')])]
   \<and> parts (conversation_history (snd eager_run) ! 4) = [FunctionResponse ''check_for_outliers'' PNull]"
  using enterprise_agent_no_dangling
          [of failing_tools "''How many rows?''" superstore scripted eager_script "''gemini''" "()"
              "''Be brief.''"]
  by (simp add: run_simps)

subsection \<open>The turn limit\<close>

text \<open>
  A run issues at most five model calls.  If every call it issued was answered by a tool
  request that carries a dictionary of arguments (no text, no empty response, no failed call),
  it issued exactly five and returns the message that the turn limit was exceeded.
\<close>

lemma enterprise_agent_calls_bounded:
  "length (model_calls (snd (enterprise_agent T q df client c m decls ins))) \<le> 5
   \<and> (list_all requests_tool (map snd (model_calls (snd (enterprise_agent T q df client c m decls ins))))
      \<and> list_all carries_dict (map snd (model_calls (snd (enterprise_agent T q df client c m decls ins))))
        \<longrightarrow> fst (enterprise_agent T q df client c m decls ins)
              = Inr ''Agent exceeded maximum conversation turns without providing a final answer.''
            \<and> length (model_calls (snd (enterprise_agent T q df client c m decls ins))) = 5)"
proof -
  obtain res st' where r: "enterprise_agent T q df client c m decls ins = (res, st')"
    by (cases "enterprise_agent T q df client c m decls ins")
  from agent_turns_log [OF r [unfolded enterprise_agent_def]] show ?thesis
    by (auto simp: r max_turns_def)
qed

lemma eager_run_exhausts:
  "fst eager_run = Inr ''Agent exceeded maximum conversation turns without providing a final answer.''
   \<and> length (model_calls (snd eager_run)) = 5
   \<and> map snd (model_calls (snd eager_run)) = take 5 eager_script"
proof -
  have o: "map snd (model_calls (snd eager_run)) = take 5 eager_script"
    by (simp add: run_simps)
  have "list_all requests_tool (take 5 eager_script)"
    and "list_all carries_dict (take 5 eager_script)"
    by (simp_all add: eager_script_def wants_def)
  with o show ?thesis
    using enterprise_agent_calls_bounded
          [of failing_tools "''How many rows?''" superstore scripted eager_script "''gemini''" "()"
              "''Be brief.''"]
    by (simp add: eager_run_def)
qed

text \<open>
  Claim C2 fails on the code.  \<^verbatim>\<open>dict(tool_call.args)\<close> stands outside both \<^verbatim>\<open>try\<close>
  blocks, so a tool request whose \<^verbatim>\<open>args\<close> is \<^verbatim>\<open>None\<close> ends the run with
  \<^verbatim>\<open>TypeError\<close>: the one model call of the run was answered by a tool request, no text,
  no empty response and no failed call came, and the run neither goes on to the turn limit nor
  returns the message that it was exceeded.
\<close>

theorem enterprise_agent_bare_request_raises:
  "fst bare_run = Inl (PyError ''TypeError'' (CHR 0x27 # ''NoneType' object is not iterable''))
   \<and> map snd (model_calls (snd bare_run)) = [wants_bare ''data_summary'']
   \<and> list_all requests_tool (map snd (model_calls (snd bare_run)))
   \<and> conversation_history (snd bare_run) = [\<lparr>role = ''user'', parts = [Text ''How many rows?'']\<rparr>]"
  by (simp add: run_simps wants_bare_def bare_run_def none_not_iterable_def)

section \<open>Properties of the two-step agent\<close>

subsection \<open>The parser on the outlier request\<close>

lemma parse_tool_string:
  "strip (split ''TOOL:check_for_outliers(column_name='profit')'' ''TOOL:'' ! 1)
     = ''check_for_outliers(column_name='profit')''"
  by (simp add: split_def strip_def is_space_def)

lemma parse_tool_name:
  "strip (hd (split ''check_for_outliers(column_name='profit')'' ''(''))
     = ''check_for_outliers''"
  by (simp add: split_def strip_def is_space_def)

lemma parse_tool_kwargs:
  "parse_kwargs ''check_for_outliers(column_name='profit')'' = [(''column_name'', ''profit'')]"
  by (simp add: parse_kwargs_def lazy_group_def remove_char_def split1_def strip_def is_space_def)

lemma two_step_dispatch:
  "call_tool_two_step T ''check_for_outliers(column_name='profit')'' df
     = tool_check_for_outliers T ''profit'' df"
  by (simp add: call_tool_two_step_def parse_tool_name parse_tool_kwargs call_tool_unpack_def
        call_tool_def)

subsection \<open>Model calls and branches\<close>

lemma generate_content_calls:
  "model_calls (snd (generate_content client req st))
     = model_calls st @ [(req, fst (generate_content client req st))]"
  by (simp add: generate_content_def split: prod.splits)

lemma generate_content_world:
  "world_of (snd (generate_content client req st)) = world_of st"
  by (simp add: generate_content_def split: prod.splits)

lemma ask_model_calls:
  "model_calls (snd (ask_model_for_action q client m st))
     = model_calls st @
         [(\<lparr>model = m, contents = Prompt (decision_prompt q), config = None\<rparr>,
           fst (generate_content client
                  \<lparr>model = m, contents = Prompt (decision_prompt q), config = None\<rparr> st))]"
  by (simp add: ask_model_for_action_def generate_content_calls [symmetric]
        split: prod.splits sum.splits option.splits)

lemma ask_model_world:
  "world_of (snd (ask_model_for_action q client m st)) = world_of st"
proof -
  have "world_of (snd (ask_model_for_action q client m st))
      = world_of (snd (generate_content client
                  \<lparr>model = m, contents = Prompt (decision_prompt q), config = None\<rparr> st))"
    by (simp add: ask_model_for_action_def split: prod.splits sum.splits option.splits)
  then show ?thesis
    by (simp add: generate_content_world)
qed


lemma new_decision_fails:
  assumes "fst (ask_model_for_action q client m \<lparr>world_of = df, client_of = c, model_calls = []\<rparr>) = Inl e"
  shows "enterprise_agent_new py_str T q df client c m =
           (Inl e, snd (ask_model_for_action q client m
                          \<lparr>world_of = df, client_of = c, model_calls = []\<rparr>))"
  using assms
  by (cases "ask_model_for_action q client m \<lparr>world_of = df, client_of = c, model_calls = []\<rparr>")
     (simp add: enterprise_agent_new_def)

lemma new_tool_raises:
  assumes "fst (ask_model_for_action q client m \<lparr>world_of = df, client_of = c, model_calls = []\<rparr>) = Inr d"
    and "startswith d ''TOOL:''"
    and "fst (call_tool_two_step T (strip (split d ''TOOL:'' ! 1)) df) = Inl e"
  shows "enterprise_agent_new py_str T q df client c m =
           (Inl e, (snd (ask_model_for_action q client m
                           \<lparr>world_of = df, client_of = c, model_calls = []\<rparr>))
                     \<lparr>world_of := snd (call_tool_two_step T (strip (split d ''TOOL:'' ! 1)) df)\<rparr>)"
proof -
  obtain r st1 where a: "ask_model_for_action q client m
        \<lparr>world_of = df, client_of = c, model_calls = []\<rparr> = (r, st1)"
    by (cases "ask_model_for_action q client m \<lparr>world_of = df, client_of = c, model_calls = []\<rparr>")
  have w: "world_of st1 = df"
    using ask_model_world [of q client m "\<lparr>world_of = df, client_of = c, model_calls = []\<rparr>"] a
    by simp
  obtain x w' where t: "call_tool_two_step T (strip (split d ''TOOL:'' ! 1)) df = (x, w')"
    by (cases "call_tool_two_step T (strip (split d ''TOOL:'' ! 1)) df")
  show ?thesis
    using assms a t by (simp add: enterprise_agent_new_def Let_def w)
qed

lemma new_tool_returns:
  assumes "fst (ask_model_for_action q client m \<lparr>world_of = df, client_of = c, model_calls = []\<rparr>) = Inr d"
    and "startswith d ''TOOL:''"
    and "call_tool_two_step T (strip (split d ''TOOL:'' ! 1)) df = (Inr out, w')"
  shows "enterprise_agent_new py_str T q df client c m =
           (case fst (generate_content client
                   \<lparr>model = m,
                    contents = Prompt (followup_prompt (strip (split d ''TOOL:'' ! 1))
                                         (take 20000 (py_str out)) q),
                    config = None\<rparr>
                   ((snd (ask_model_for_action q client m
                            \<lparr>world_of = df, client_of = c, model_calls = []\<rparr>))\<lparr>world_of := w'\<rparr>)) of
              Inl e \<Rightarrow> Inl e
            | Inr final \<Rightarrow> Inr (response_text final),
            snd (generate_content client
                   \<lparr>model = m,
                    contents = Prompt (followup_prompt (strip (split d ''TOOL:'' ! 1))
                                         (take 20000 (py_str out)) q),
                    config = None\<rparr>
                   ((snd (ask_model_for_action q client m
                            \<lparr>world_of = df, client_of = c, model_calls = []\<rparr>))\<lparr>world_of := w'\<rparr>)))"
proof -
  obtain r st1 where a: "ask_model_for_action q client m
        \<lparr>world_of = df, client_of = c, model_calls = []\<rparr> = (r, st1)"
    by (cases "ask_model_for_action q client m \<lparr>world_of = df, client_of = c, model_calls = []\<rparr>")
  have w: "world_of st1 = df"
    using ask_model_world [of q client m "\<lparr>world_of = df, client_of = c, model_calls = []\<rparr>"] a
    by simp
  show ?thesis
    using assms a
    by (simp add: enterprise_agent_new_def Let_def w split: prod.splits sum.splits)
qed

lemma new_response:
  assumes "fst (ask_model_for_action q client m \<lparr>world_of = df, client_of = c, model_calls = []\<rparr>) = Inr d"
    and "\<not> startswith d ''TOOL:''" and "startswith d ''RESPONSE:''"
  shows "enterprise_agent_new py_str T q df client c m =
           (Inr (Some (strip (split1 d ''RESPONSE:'' ! 1))),
            snd (ask_model_for_action q client m
                   \<lparr>world_of = df, client_of = c, model_calls = []\<rparr>))"
  using assms
  by (cases "ask_model_for_action q client m \<lparr>world_of = df, client_of = c, model_calls = []\<rparr>")
     (simp add: enterprise_agent_new_def)

lemma new_fallback:
  assumes "fst (ask_model_for_action q client m \<lparr>world_of = df, client_of = c, model_calls = []\<rparr>) = Inr d"
    and "\<not> startswith d ''TOOL:''" and "\<not> startswith d ''RESPONSE:''"
  shows "enterprise_agent_new py_str T q df client c m =
           (case fst (generate_content client
                   \<lparr>model = m, contents = Prompt (fallback_prompt q d), config = None\<rparr>
                   (snd (ask_model_for_action q client m
                           \<lparr>world_of = df, client_of = c, model_calls = []\<rparr>))) of
              Inl e \<Rightarrow> Inl e
            | Inr fallback \<Rightarrow> Inr (response_text fallback),
            snd (generate_content client
                   \<lparr>model = m, contents = Prompt (fallback_prompt q d), config = None\<rparr>
                   (snd (ask_model_for_action q client m
                           \<lparr>world_of = df, client_of = c, model_calls = []\<rparr>))))"
  using assms
  by (cases "ask_model_for_action q client m \<lparr>world_of = df, client_of = c, model_calls = []\<rparr>")
     (simp add: enterprise_agent_new_def split: prod.splits sum.splits)

lemma two_step_calls_length:
  "length (model_calls (snd (enterprise_agent_new py_str T q df client c m))) =
     (case fst (ask_model_for_action q client m \<lparr>world_of = df, client_of = c, model_calls = []\<rparr>) of
        Inl e \<Rightarrow> 1
      | Inr d \<Rightarrow>
          if startswith d ''TOOL:'' then
            (if raised (fst (call_tool_two_step T (strip (split d ''TOOL:'' ! 1)) df)) then 1 else 2)
          else if startswith d ''RESPONSE:'' then 1 else 2)"
proof (cases "fst (ask_model_for_action q client m \<lparr>world_of = df, client_of = c, model_calls = []\<rparr>)")
  case (Inl e)
  then show ?thesis
    by (simp add: new_decision_fails ask_model_calls)
next
  case (Inr d)
  show ?thesis
  proof (cases "startswith d ''TOOL:''")
    case True
    obtain x w' where t: "call_tool_two_step T (strip (split d ''TOOL:'' ! 1)) df = (x, w')"
      by (cases "call_tool_two_step T (strip (split d ''TOOL:'' ! 1)) df")
    show ?thesis
    proof (cases x)
      case (Inl e)
      with t have "fst (call_tool_two_step T (strip (split d ''TOOL:'' ! 1)) df) = Inl e"
        by simp
      from new_tool_raises [OF Inr True this] show ?thesis
        using Inr True t Inl by (simp add: ask_model_calls)
    next
      case (Inr out)
      with t have "call_tool_two_step T (strip (split d ''TOOL:'' ! 1)) df = (Inr out, w')"
        by simp
      from new_tool_returns [OF \<open>fst _ = Inr d\<close> True this] show ?thesis
        using \<open>fst _ = Inr d\<close> True t Inr by (simp add: generate_content_calls ask_model_calls)
    qed
  next
    case False
    show ?thesis
    proof (cases "startswith d ''RESPONSE:''")
      case True
      from new_response [OF Inr False True] show ?thesis
        using Inr False True by (simp add: ask_model_calls)
    next
      case r: False
      from new_fallback [OF Inr False r] show ?thesis
        using Inr False r by (simp add: generate_content_calls ask_model_calls)
    qed
  qed
qed


text \<open>
  Claim C4, as the code has it.  A run issues one or two model calls.  It issues two when the
  trimmed decision starts with \<^verbatim>\<open>TOOL:\<close> and the dispatched tool returns (the
  interpretation call), and also when the decision starts with neither \<^verbatim>\<open>TOOL:\<close> nor
  \<^verbatim>\<open>RESPONSE:\<close> (the fallback call).  It issues one when the decision starts with
  \<^verbatim>\<open>RESPONSE:\<close>, when the dispatched tool raises, and when the decision call fails or
  its response has no text.
\<close>

theorem two_step_model_calls:
  "1 \<le> length (model_calls (snd (enterprise_agent_new py_str T q df client c m)))
   \<and> length (model_calls (snd (enterprise_agent_new py_str T q df client c m))) \<le> 2
   \<and> (\<forall>e st1. ask_model_for_action q client m \<lparr>world_of = df, client_of = c, model_calls = []\<rparr>
                   = (Inl e, st1) \<longrightarrow>
         length (model_calls (snd (enterprise_agent_new py_str T q df client c m))) = 1)
   \<and> (\<forall>d st1. ask_model_for_action q client m \<lparr>world_of = df, client_of = c, model_calls = []\<rparr>
                   = (Inr d, st1) \<longrightarrow>
         (startswith d ''TOOL:'' \<longrightarrow>
            (length (model_calls (snd (enterprise_agent_new py_str T q df client c m))) = 2
             \<longleftrightarrow> \<not> raised (fst (call_tool_two_step T (strip (split d ''TOOL:'' ! 1)) df))))
         \<and> (\<not> startswith d ''TOOL:'' \<and> startswith d ''RESPONSE:'' \<longrightarrow>
              length (model_calls (snd (enterprise_agent_new py_str T q df client c m))) = 1)
         \<and> (\<not> startswith d ''TOOL:'' \<and> \<not> startswith d ''RESPONSE:'' \<longrightarrow>
              length (model_calls (snd (enterprise_agent_new py_str T q df client c m))) = 2))"
  unfolding two_step_calls_length
  by (auto split: sum.splits)

lemma direct_decision:
  "ask_model_for_action ''How many rows?''
       (scripted :: ((exn + string response) list, string, unit) client) ''gemini''
       \<lparr>world_of = superstore, client_of = [says '' RESPONSE: Three rows. '', says ''never reached''],
        model_calls = []\<rparr>
     = (Inr ''RESPONSE: Three rows.'',
        \<lparr>world_of = superstore, client_of = [says ''never reached''],
         model_calls = [(\<lparr>model = ''gemini'', contents = Prompt (decision_prompt ''How many rows?''),
                            config = None\<rparr>, says '' RESPONSE: Three rows. '')]\<rparr>)"
  by (simp add: ask_model_for_action_def generate_content_def scripted_def says_def strip_def
        is_space_def)

theorem two_step_model_calls_witness:
  "length (model_calls (snd direct_run)) = 1
   \<and> fst direct_run = Inr (Some ''Three rows.'')"
proof -
  have s: "startswith ''RESPONSE: Three rows.'' ''RESPONSE:''"
    and t: "\<not> startswith ''RESPONSE: Three rows.'' ''TOOL:''"
    by (simp_all add: startswith_def)
  note th = two_step_model_calls
          [of short_str "tools_py plain_library" "''How many rows?''" superstore
              "scripted :: ((exn + string response) list, string, unit) client"
              "[says '' RESPONSE: Three rows. '', says ''never reached'']" "''gemini''",
           folded direct_run_def]
  from th direct_decision s t have "length (model_calls (snd direct_run)) = 1"
    by blast
  moreover have "fst direct_run = Inr (Some ''Three rows.'')"
    by (simp add: direct_run_def enterprise_agent_new_def direct_decision startswith_def
          split1_def strip_def is_space_def)
  ultimately show ?thesis
    by simp
qed

text \<open>
  The claim as written fails on the fallback: the decision \<^verbatim>\<open>MAYBE:do something\<close> does
  not start with \<^verbatim>\<open>TOOL:\<close>, and the run issues two model calls.
\<close>

theorem two_step_fallback_counterexample:
  "length (model_calls (snd irregular_run)) = 2
   \<and> map snd (model_calls (snd irregular_run)) = [says ''MAYBE:do something'', says ''Three rows.'']
   \<and> strip ''MAYBE:do something'' = ''MAYBE:do something''
   \<and> \<not> startswith ''MAYBE:do something'' ''TOOL:''
   \<and> fst irregular_run = Inr (Some ''Three rows.'')"
  by (simp add: irregular_run_def enterprise_agent_new_def ask_model_for_action_def
        generate_content_def scripted_def says_def strip_def is_space_def startswith_def)

subsection \<open>The outlier scenario\<close>

text \<open>
  Claim C6.  When the trimmed decision is \<^verbatim>\<open>TOOL:check_for_outliers(column_name='profit')\<close>
  the parser finds the tool name \<^verbatim>\<open>check_for_outliers\<close> and the one argument
  \<^verbatim>\<open>{"column_name": "profit"}\<close>, the call goes through the dispatcher, and when the tool
  returns, the run issues exactly one more model call, the interpretation prompt with the tool
  output, and returns the text of its response (or raises what that call raises).
\<close>

theorem two_step_outlier_scenario:
  assumes "fst (ask_model_for_action q client m \<lparr>world_of = df, client_of = c, model_calls = []\<rparr>)
             = Inr ''TOOL:check_for_outliers(column_name='profit')''"
    and "tool_check_for_outliers T ''profit'' df = (Inr out, w')"
  shows "strip (hd (split ''check_for_outliers(column_name='profit')'' ''('')) = ''check_for_outliers''
     \<and> parse_kwargs ''check_for_outliers(column_name='profit')'' = [(''column_name'', ''profit'')]
     \<and> map_of (parse_kwargs ''check_for_outliers(column_name='profit')'')
         = [''column_name'' \<mapsto> ''profit'']
     \<and> call_tool_two_step T ''check_for_outliers(column_name='profit')'' df
         = call_tool T ''check_for_outliers'' df [''column_name'' \<mapsto> ''profit'']
     \<and> call_tool T ''check_for_outliers'' df [''column_name'' \<mapsto> ''profit''] = (Inr out, w')
     \<and> (\<exists>decided interpreted.
           model_calls (snd (enterprise_agent_new py_str T q df client c m))
             = [(\<lparr>model = m, contents = Prompt (decision_prompt q), config = None\<rparr>, decided),
                (\<lparr>model = m,
                  contents = Prompt (followup_prompt ''check_for_outliers(column_name='profit')''
                                       (take 20000 (py_str out)) q),
                  config = None\<rparr>, interpreted)]
           \<and> fst (enterprise_agent_new py_str T q df client c m)
               = (case interpreted of Inl e \<Rightarrow> Inl e | Inr final \<Rightarrow> Inr (response_text final)))
     \<and> world_of (snd (enterprise_agent_new py_str T q df client c m)) = w'"
proof -
  have d: "call_tool_two_step T ''check_for_outliers(column_name='profit')'' df
         = call_tool T ''check_for_outliers'' df [''column_name'' \<mapsto> ''profit'']"
    by (simp add: call_tool_two_step_def parse_tool_name parse_tool_kwargs call_tool_unpack_def)
  have e: "call_tool T ''check_for_outliers'' df [''column_name'' \<mapsto> ''profit''] = (Inr out, w')"
    using assms(2) by (simp add: call_tool_def)
  have s: "startswith ''TOOL:check_for_outliers(column_name='profit')'' ''TOOL:''"
    by (simp add: startswith_def)
  have t: "call_tool_two_step T
             (strip (split ''TOOL:check_for_outliers(column_name='profit')'' ''TOOL:'' ! 1)) df
           = (Inr out, w')"
    unfolding parse_tool_string using d e by simp
  note r = new_tool_returns [OF assms(1) s t, of py_str, unfolded parse_tool_string]
  show ?thesis
    using d e
    by (simp add: parse_tool_name parse_tool_kwargs r generate_content_calls
          generate_content_world ask_model_calls)
qed

lemma profit_report:
  "check_for_outliers plain_library ''profit'' superstore
      = (Inr (PDict
        [(PStr ''column'', PStr ''profit''),
         (PStr ''Q1'', PFloat 4),
         (PStr ''Q3'', PFloat 4),
         (PStr ''IQR'', PFloat 0),
         (PStr ''lower_bound'', PFloat 4),
         (PStr ''upper_bound'', PFloat 4),
         (PStr ''outlier_count'', PInt 0),
         (PStr ''outlier_percentage'', PFloat 0),
         (PStr ''note'', PStr ''Outliers are defined by the 1.5 * IQR rule.'')]), superstore)"
proof -
  have "frame superstore = Some (the (frame superstore))"
    by (simp add: superstore_def)
  moreover have "getitem (the (frame superstore)) ''profit'' = Some (Float64 [Some 4, Some 4, None])"
    by (simp add: superstore_def getitem_def)
  moreover have "is_numeric_dtype (Float64 [Some 4, Some 4, None])"
    by simp
  moreover have "dropna (numbers plain_library (Float64 [Some 4, Some 4, None])) \<noteq> []"
    by simp
  moreover have "\<forall>x\<in>set (dropna (numbers plain_library (Float64 [Some 4, Some 4, None]))). x = 4"
    by simp
  moreover have "float64 plain_library 0 = 0" and "float64 plain_library 4 = 4"
    by (simp_all add: plain_library_def)
  ultimately show ?thesis
    using constant_column_report
          [of superstore "the (frame superstore)" "''profit''" "Float64 [Some 4, Some 4, None]"
              plain_library 4]
    by (simp add: plain_round_4 plain_round_0)
qed

lemma profit_decision:
  "ask_model_for_action ''Any outliers?''
       (scripted :: ((exn + string response) list, string, unit) client) ''gemini''
       \<lparr>world_of = superstore,
        client_of = [says ''  TOOL:check_for_outliers(column_name='profit')\<newline>'',
                     says ''No outliers in profit.''],
        model_calls = []\<rparr>
     = (Inr ''TOOL:check_for_outliers(column_name='profit')'',
        \<lparr>world_of = superstore, client_of = [says ''No outliers in profit.''],
         model_calls = [(\<lparr>model = ''gemini'', contents = Prompt (decision_prompt ''Any outliers?''),
                            config = None\<rparr>,
                         says ''  TOOL:check_for_outliers(column_name='profit')\<newline>'')]\<rparr>)"
  by (simp add: ask_model_for_action_def generate_content_def scripted_def says_def strip_def
        is_space_def)

lemma profit_run_value:
  "profit_run =
     (Inr (Some ''No outliers in profit.''),
      \<lparr>world_of = superstore, client_of = [],
       model_calls =
         [(\<lparr>model = ''gemini'', contents = Prompt (decision_prompt ''Any outliers?''),
             config = None\<rparr>,
           says ''  TOOL:check_for_outliers(column_name='profit')\<newline>''),
          (\<lparr>model = ''gemini'',
             contents = Prompt (followup_prompt ''check_for_outliers(column_name='profit')''
                                  ''report'' ''Any outliers?''),
             config = None\<rparr>,
           says ''No outliers in profit.'')]\<rparr>)"
  unfolding profit_run_def enterprise_agent_new_def profit_decision
  by (simp add: startswith_def parse_tool_string [unfolded One_nat_def] two_step_dispatch
        tools_py_def profit_report generate_content_def scripted_def says_def)

theorem two_step_outlier_scenario_witness:
  "fst profit_run = Inr (Some ''No outliers in profit.'')
   \<and> map (\<lambda>entry. contents (fst entry)) (model_calls (snd profit_run))
       = [Prompt (decision_prompt ''Any outliers?''),
          Prompt (followup_prompt ''check_for_outliers(column_name='profit')'' ''report''
                    ''Any outliers?'')]
   \<and> map snd (model_calls (snd profit_run))
       = [says ''  TOOL:check_for_outliers(column_name='profit')\<newline>'',
          says ''No outliers in profit.'']
   \<and> world_of (snd profit_run) = superstore"
proof -
  have a: "fst (ask_model_for_action ''Any outliers?''
       (scripted :: ((exn + string response) list, string, unit) client) ''gemini''
       \<lparr>world_of = superstore,
        client_of = [says ''  TOOL:check_for_outliers(column_name='profit')\<newline>'',
                     says ''No outliers in profit.''],
        model_calls = []\<rparr>) = Inr ''TOOL:check_for_outliers(column_name='profit')''"
    by (simp add: profit_decision)
  have b: "tool_check_for_outliers (tools_py plain_library) ''profit'' superstore
      = (Inr (PDict
        [(PStr ''column'', PStr ''profit''),
         (PStr ''Q1'', PFloat 4),
         (PStr ''Q3'', PFloat 4),
         (PStr ''IQR'', PFloat 0),
         (PStr ''lower_bound'', PFloat 4),
         (PStr ''upper_bound'', PFloat 4),
         (PStr ''outlier_count'', PInt 0),
         (PStr ''outlier_percentage'', PFloat 0),
         (PStr ''note'', PStr ''Outliers are defined by the 1.5 * IQR rule.'')]), superstore)"
    by (simp add: tools_py_def profit_report)
  note th = two_step_outlier_scenario [OF a b, of short_str, folded profit_run_def]
  from th have w: "world_of (snd profit_run) = superstore"
    by blast
  from th obtain decided interpreted where
    f: "fst profit_run = (case interpreted of Inl e \<Rightarrow> Inl e | Inr final \<Rightarrow> Inr (response_text final))"
    and l: "map (\<lambda>entry. contents (fst entry)) (model_calls (snd profit_run))
       = [Prompt (decision_prompt ''Any outliers?''),
          Prompt (followup_prompt ''check_for_outliers(column_name='profit')'' ''report''
                    ''Any outliers?'')]"
    and o: "map snd (model_calls (snd profit_run)) = [decided, interpreted]"
    by auto
  from o have "decided = says ''  TOOL:check_for_outliers(column_name='profit')\<newline>''"
    and "interpreted = says ''No outliers in profit.''"
    by (simp_all add: profit_run_value)
  with f l o w show ?thesis
    by (simp add: says_def)
qed

section \<open>A failing model call\<close>




end
